theory Spec2Isabelle
  imports Main "HOL-Library.Word" "HOL-Library.Multiset"
begin

section \<open>Values shared by the connectivity layer of client/src/App.js\<close>

text \<open>
  A value thrown by a library call or carried by a rejected promise. The handlers of
  App.js only read its \<open>message\<close> property, so it is modelled as an Error object with its
  message. Console output is diagnostic only and is left out of the model.
\<close>

datatype js_error = Error (message: string)

text \<open>
  What \<open>new Web3(...)\<close> is given: an injected provider object (\<open>window.ethereum\<close> or
  \<open>Web3.givenProvider\<close>) or the URL of an HTTP endpoint. The constructor only records its
  argument; all I/O happens in the calls made later through the instance.
\<close>

datatype provider = ProviderObject string | ProviderUrl string

datatype web3 = Web3 (currentProvider: provider)

type_synonym abi = "string list"

record networkData =
  address :: string

text \<open>
  The build artifact \<open>./contracts/MediChain.json\<close>: the interface description and the
  per-network deployment table. The file is not part of the sources, so the artifact is a
  parameter of every function that reads it.
\<close>

record artifact =
  abi :: abi
  networks :: "nat \<rightharpoonup> networkData"

text \<open>The object built by \<open>new web3.eth.Contract(abi, address)\<close>.\<close>

record contract =
  contract_web3 :: web3
  contract_abi :: abi
  contract_address :: string

text \<open>
  The ledger handle held in the \<open>mediChain\<close> state variable: a real contract object, or
  the object returned by \<open>createMockContract\<close>.
\<close>

datatype ledger_handle = RealContract contract | SimulatedContract

text \<open>
  Everything outside the program that a resolution reads: the two browser globals, and
  the outcome of each library call that can fail. \<open>Contract_rejects\<close> is the argument
  validation of the contract constructor (it throws on a malformed interface or address);
  \<open>net_getId\<close> is \<open>web3.eth.net.getId()\<close>; \<open>name_call\<close> is \<open>methods.name().call()\<close>;
  \<open>ipfs_version\<close> is the \<open>version()\<close> query of an IPFS client.
\<close>

record create_options =
  url :: string
  timeout :: nat

datatype ipfs_client = IpfsClient (client_options: create_options)

record env =
  window_ethereum :: "provider option"
  Web3_givenProvider :: "provider option"
  net_getId :: "web3 \<Rightarrow> js_error + nat"
  Contract_rejects :: "abi \<Rightarrow> string \<Rightarrow> js_error option"
  name_call :: "contract \<Rightarrow> js_error + string"
  ipfs_version :: "ipfs_client \<Rightarrow> js_error + string"

text \<open>The state variables of the \<open>App\<close> component.\<close>

datatype store_handle = RealStore ipfs_client | mockIpfs

record app_state =
  account :: string
  token :: string
  mediChain :: "ledger_handle option"
  ipfs :: store_handle

definition setMediChain :: "ledger_handle \<Rightarrow> app_state \<Rightarrow> app_state" where
  "setMediChain h st = st\<lparr>mediChain := Some h\<rparr>"

definition setIpfs :: "store_handle \<Rightarrow> app_state \<Rightarrow> app_state" where
  "setIpfs h st = st\<lparr>ipfs := h\<rparr>"

section \<open>Ledger resolution: getContractInstance\<close>

definition sentinel_address :: string where
  "sentinel_address = ''0x9876543210987654321098765432109876543210''"

definition fallback_url :: string where
  "fallback_url = ''http://localhost:7545''"

text \<open>\<open>window.ethereum || Web3.givenProvider || 'http://localhost:7545'\<close>\<close>

definition chosen_provider :: "env \<Rightarrow> provider" where
  "chosen_provider e =
     (case window_ethereum e of
        Some p \<Rightarrow> p
      | None \<Rightarrow> (case Web3_givenProvider e of
                   Some p \<Rightarrow> p
                 | None \<Rightarrow> ProviderUrl fallback_url))"

definition new_Contract :: "env \<Rightarrow> web3 \<Rightarrow> abi \<Rightarrow> string \<Rightarrow> js_error + contract" where
  "new_Contract e w a addr =
     (case Contract_rejects e a addr of
        Some err \<Rightarrow> Inl err
      | None \<Rightarrow> Inr \<lparr>contract_web3 = w, contract_abi = a, contract_address = addr\<rparr>)"

text \<open>\<open>createMockContract(web3)\<close> builds the same object whatever instance it is given.\<close>

definition createMockContract :: "web3 \<Rightarrow> ledger_handle" where
  "createMockContract w = SimulatedContract"

text \<open>
  The statements after the \<open>if\<close> of the \<open>try\<close> block: reached when the record is absent
  or holds the sentinel address, and after the inner \<open>catch\<close>.
\<close>

definition fallback_to_mock :: "web3 \<Rightarrow> app_state \<Rightarrow> js_error + app_state" where
  "fallback_to_mock w st = (let mockContract = createMockContract w in Inr (setMediChain mockContract st))"

text \<open>
  The body of the outer \<open>try\<close>. A failing library call leaves it with \<open>Inl\<close>, except the
  probe, whose failure the inner \<open>try\<close> catches; a successful probe publishes the real
  contract and returns.
\<close>

definition getContractInstance_try :: "env \<Rightarrow> artifact \<Rightarrow> app_state \<Rightarrow> js_error + app_state" where
  "getContractInstance_try e MediChain st =
     (let w = Web3 (chosen_provider e) in
      case net_getId e w of
        Inl err \<Rightarrow> Inl err
      | Inr networkId \<Rightarrow>
          (case networks MediChain networkId of
             None \<Rightarrow> fallback_to_mock w st
           | Some nd \<Rightarrow>
               if address nd \<noteq> sentinel_address then
                 (case new_Contract e w (abi MediChain) (address nd) of
                    Inl err \<Rightarrow> Inl err
                  | Inr c \<Rightarrow>
                      (case name_call e c of
                         Inr n \<Rightarrow> Inr (setMediChain (RealContract c) st)
                       | Inl err \<Rightarrow> fallback_to_mock w st))
               else fallback_to_mock w st))"

text \<open>The outer \<open>catch\<close>: a fresh instance on the fallback URL, and the mock contract.\<close>

definition getContractInstance_catch :: "js_error \<Rightarrow> app_state \<Rightarrow> js_error + app_state" where
  "getContractInstance_catch err st =
     (let w = Web3 (ProviderUrl fallback_url);
          mockContract = createMockContract w
      in Inr (setMediChain mockContract st))"

definition getContractInstance :: "env \<Rightarrow> artifact \<Rightarrow> app_state \<Rightarrow> js_error + app_state" where
  "getContractInstance e MediChain st =
     (case getContractInstance_try e MediChain st of
        Inl err \<Rightarrow> getContractInstance_catch err st
      | Inr st' \<Rightarrow> Inr st')"

section \<open>Content-store resolution: setupIPFS\<close>

text \<open>
  \<open>create(options)\<close> of the IPFS HTTP client only builds a client object for the endpoint;
  the connection is made by the first query. The queries a resolution issues are recorded,
  so that the number of attempts can be stated.
\<close>

datatype request = VersionQuery ipfs_client

definition create :: "create_options \<Rightarrow> ipfs_client" where
  "create opts = IpfsClient opts"

definition setupIPFS_try :: "env \<Rightarrow> request list \<times> (js_error + store_handle)" where
  "setupIPFS_try e =
     (let ipfs = create \<lparr>url = ''http://127.0.0.1:5001/api/v0'', timeout = 3000\<rparr> in
      case ipfs_version e ipfs of
        Inl err \<Rightarrow> ([VersionQuery ipfs], Inl err)
      | Inr v \<Rightarrow> ([VersionQuery ipfs], Inr (RealStore ipfs)))"

definition setupIPFS :: "env \<Rightarrow> request list \<times> (js_error + store_handle)" where
  "setupIPFS e =
     (case setupIPFS_try e of
        (reqs, Inl err) \<Rightarrow> (reqs, Inr mockIpfs)
      | (reqs, Inr h) \<Rightarrow> (reqs, Inr h))"

definition initializeIPFS :: "env \<Rightarrow> app_state \<Rightarrow> js_error + app_state" where
  "initializeIPFS e st =
     (case snd (setupIPFS e) of
        Inl err \<Rightarrow> Inl err
      | Inr ipfsInstance \<Rightarrow> Inr (setIpfs ipfsInstance st))"

section \<open>The App component: initial state and the start-up effect\<close>

text \<open>The four \<open>useState\<close> initial values.\<close>

definition App_initial :: app_state where
  "App_initial = \<lparr>account = '''', token = '''', mediChain = None, ipfs = mockIpfs\<rparr>"

text \<open>
  Both resolutions are \<open>async\<close> functions: each runs until its next \<open>await\<close>, is suspended
  there, and is resumed when the awaited promise settles. A task records where a function
  is suspended, or how its own promise has settled.
\<close>

datatype ledger_task =
    AwaitGetId web3
  | AwaitProbe web3 contract
  | LedgerReturned
  | LedgerRaised js_error

datatype store_task =
    AwaitVersion ipfs_client
  | AwaitSetup "js_error + store_handle"
  | StoreReturned
  | StoreRaised js_error

definition ledger_settle :: "js_error + app_state \<Rightarrow> app_state \<Rightarrow> ledger_task \<times> app_state" where
  "ledger_settle r st = (case r of Inl err \<Rightarrow> (LedgerRaised err, st) | Inr st' \<Rightarrow> (LedgerReturned, st'))"

text \<open>The call \<open>getContractInstance()\<close>: up to \<open>await web3.eth.net.getId()\<close>.\<close>

definition getContractInstance_start :: "env \<Rightarrow> ledger_task" where
  "getContractInstance_start e = AwaitGetId (Web3 (chosen_provider e))"

text \<open>
  Resuming \<open>getContractInstance\<close>: after the network query, up to the probe or to the end;
  after the probe, to the end. A throw before the probe is handled by the outer
  \<open>catch\<close>, a failed probe by the inner one.
\<close>

fun getContractInstance_resume ::
  "env \<Rightarrow> artifact \<Rightarrow> ledger_task \<Rightarrow> app_state \<Rightarrow> ledger_task \<times> app_state" where
  "getContractInstance_resume e MediChain (AwaitGetId w) st =
     (case net_getId e w of
        Inl err \<Rightarrow> ledger_settle (getContractInstance_catch err st) st
      | Inr networkId \<Rightarrow>
          (case networks MediChain networkId of
             None \<Rightarrow> ledger_settle (fallback_to_mock w st) st
           | Some nd \<Rightarrow>
               if address nd \<noteq> sentinel_address then
                 (case new_Contract e w (abi MediChain) (address nd) of
                    Inl err \<Rightarrow> ledger_settle (getContractInstance_catch err st) st
                  | Inr c \<Rightarrow> (AwaitProbe w c, st))
               else ledger_settle (fallback_to_mock w st) st))"
| "getContractInstance_resume e MediChain (AwaitProbe w c) st =
     (case name_call e c of
        Inr n \<Rightarrow> (LedgerReturned, setMediChain (RealContract c) st)
      | Inl err \<Rightarrow> ledger_settle (fallback_to_mock w st) st)"
| "getContractInstance_resume e MediChain LedgerReturned st = (LedgerReturned, st)"
| "getContractInstance_resume e MediChain (LedgerRaised err) st = (LedgerRaised err, st)"

text \<open>
  The call \<open>initializeIPFS()\<close>: into \<open>setupIPFS\<close>, up to \<open>await ipfs.version()\<close>. Resuming:
  \<open>setupIPFS\<close> returns its handle, then \<open>await setupIPFS()\<close> hands it to \<open>setIpfs\<close>.
\<close>

definition initializeIPFS_start :: store_task where
  "initializeIPFS_start = AwaitVersion (create \<lparr>url = ''http://127.0.0.1:5001/api/v0'', timeout = 3000\<rparr>)"

fun initializeIPFS_resume :: "env \<Rightarrow> store_task \<Rightarrow> app_state \<Rightarrow> store_task \<times> app_state" where
  "initializeIPFS_resume e (AwaitVersion c) st =
     (case ipfs_version e c of
        Inr v \<Rightarrow> (AwaitSetup (Inr (RealStore c)), st)
      | Inl err \<Rightarrow> (AwaitSetup (Inr mockIpfs), st))"
| "initializeIPFS_resume e (AwaitSetup (Inr ipfsInstance)) st = (StoreReturned, setIpfs ipfsInstance st)"
| "initializeIPFS_resume e (AwaitSetup (Inl err)) st = (StoreRaised err, st)"
| "initializeIPFS_resume e StoreReturned st = (StoreReturned, st)"
| "initializeIPFS_resume e (StoreRaised err) st = (StoreRaised err, st)"

text \<open>
  The mounted application: the component state that is passed to the routed views as
  props, and the two tasks started by \<open>useEffect\<close>. An event is the settling of the promise
  a task awaits, or a call of one of the setters handed to the child components.
\<close>

record running_app =
  component :: app_state
  ledger :: ledger_task
  store :: store_task

datatype app_event = LedgerResumes | StoreResumes | SetAccount string | SetToken string

definition mount :: "env \<Rightarrow> running_app" where
  "mount e = \<lparr>component = App_initial, ledger = getContractInstance_start e, store = initializeIPFS_start\<rparr>"

fun app_step :: "env \<Rightarrow> artifact \<Rightarrow> running_app \<Rightarrow> app_event \<Rightarrow> running_app" where
  "app_step e MediChain s LedgerResumes =
     (case getContractInstance_resume e MediChain (ledger s) (component s) of
        (t, st) \<Rightarrow> s\<lparr>component := st, ledger := t\<rparr>)"
| "app_step e MediChain s StoreResumes =
     (case initializeIPFS_resume e (store s) (component s) of
        (t, st) \<Rightarrow> s\<lparr>component := st, store := t\<rparr>)"
| "app_step e MediChain s (SetAccount a) = s\<lparr>component := (component s)\<lparr>account := a\<rparr>\<rparr>"
| "app_step e MediChain s (SetToken t) = s\<lparr>component := (component s)\<lparr>token := t\<rparr>\<rparr>"

definition app_run :: "env \<Rightarrow> artifact \<Rightarrow> app_event list \<Rightarrow> running_app" where
  "app_run e MediChain evs = foldl (app_step e MediChain) (mount e) evs"

text \<open>
  What holds of the published handles at every moment after mounting: while the ledger
  task is suspended the ledger handle is \<open>null\<close>, and once it has returned a handle is set;
  until the store task has returned the store handle is \<open>mockIpfs\<close>. Neither task ends
  by raising.
\<close>

definition handles_pending :: "running_app \<Rightarrow> bool" where
  "handles_pending s =
     ((case ledger s of
         AwaitGetId w \<Rightarrow> mediChain (component s) = None
       | AwaitProbe w c \<Rightarrow> mediChain (component s) = None
       | LedgerReturned \<Rightarrow> mediChain (component s) \<noteq> None
       | LedgerRaised err \<Rightarrow> False) \<and>
      (case store s of
         AwaitVersion c \<Rightarrow> ipfs (component s) = mockIpfs
       | AwaitSetup r \<Rightarrow> ipfs (component s) = mockIpfs \<and> (case r of Inl err \<Rightarrow> False | Inr h \<Rightarrow> True)
       | StoreReturned \<Rightarrow> True
       | StoreRaised err \<Rightarrow> False))"

section \<open>The simulated content store: mockIpfs\<close>

text \<open>
  A JavaScript string is a sequence of 16-bit code units; a \<open>Uint8Array\<close> is a sequence of
  bytes. \<open>js_lit\<close> gives the code units of an ASCII literal of the source.
\<close>

type_synonym js_string = "16 word list"

type_synonym bytes = "8 word list"

definition js_lit :: "string \<Rightarrow> js_string" where
  "js_lit s = map of_char s"

text \<open>
  \<open>String.prototype.substring(start, end)\<close>: both indices are clamped to the length, and
  swapped when the first is the larger.
\<close>

definition substring :: "js_string \<Rightarrow> nat \<Rightarrow> nat \<Rightarrow> js_string" where
  "substring s start fin =
     (let n = length s; a = min start n; b = min fin n
      in take (max a b - min a b) (drop (min a b) s))"

text \<open>
  \<open>new TextEncoder().encode(s)\<close>, the UTF-8 encoding of the platform: the code units are
  read as code points (a surrogate pair is one code point, a lone surrogate is replaced
  by U+FFFD), and each code point is written in one to four bytes.
\<close>

definition is_high_surrogate :: "16 word \<Rightarrow> bool" where
  "is_high_surrogate u = (0xD800 \<le> u \<and> u \<le> 0xDBFF)"

definition is_low_surrogate :: "16 word \<Rightarrow> bool" where
  "is_low_surrogate u = (0xDC00 \<le> u \<and> u \<le> 0xDFFF)"

fun code_points :: "js_string \<Rightarrow> nat list" where
  "code_points [] = []"
| "code_points (u # us) =
     (if is_high_surrogate u then
        (case us of
           [] \<Rightarrow> [0xFFFD]
         | v # vs \<Rightarrow>
             if is_low_surrogate v
             then (0x10000 + (unat u - 0xD800) * 0x400 + (unat v - 0xDC00)) # code_points vs
             else 0xFFFD # code_points us)
      else if is_low_surrogate u then 0xFFFD # code_points us
      else unat u # code_points us)"

definition utf8_bytes :: "nat \<Rightarrow> bytes" where
  "utf8_bytes cp =
     (if cp < 0x80 then [of_nat cp]
      else if cp < 0x800 then
        [of_nat (0xC0 + cp div 0x40), of_nat (0x80 + cp mod 0x40)]
      else if cp < 0x10000 then
        [of_nat (0xE0 + cp div 0x1000), of_nat (0x80 + cp div 0x40 mod 0x40),
         of_nat (0x80 + cp mod 0x40)]
      else
        [of_nat (0xF0 + cp div 0x40000), of_nat (0x80 + cp div 0x1000 mod 0x40),
         of_nat (0x80 + cp div 0x40 mod 0x40), of_nat (0x80 + cp mod 0x40)])"

definition TextEncoder_encode :: "js_string \<Rightarrow> bytes" where
  "TextEncoder_encode s = concat (map utf8_bytes (code_points s))"

text \<open>
  The yardstick for the encoder, written from the Unicode standard and independent of the
  definitions above. A scalar value is a code point that is not a surrogate.
  \<open>utf16_encode\<close> is the UTF-16 encoding form: one unit below U+10000, a surrogate pair
  from there on. \<open>utf8_decode\<close> is a strict UTF-8 decoder: it accepts the shortest form
  only, no encoded surrogate and nothing above U+10FFFF, so a byte sequence has at most one
  reading, and each sequence of scalar values exactly one encoding.
\<close>

definition is_scalar_value :: "nat \<Rightarrow> bool" where
  "is_scalar_value cp = (cp < 0xD800 \<or> (0xE000 \<le> cp \<and> cp < 0x110000))"

definition utf16_units :: "nat \<Rightarrow> js_string" where
  "utf16_units cp =
     (if cp < 0x10000 then [of_nat cp]
      else [of_nat (0xD800 + (cp - 0x10000) div 0x400), of_nat (0xDC00 + (cp - 0x10000) mod 0x400)])"

definition utf16_encode :: "nat list \<Rightarrow> js_string" where
  "utf16_encode cps = concat (map utf16_units cps)"

definition is_continuation :: "8 word \<Rightarrow> bool" where
  "is_continuation b = (0x80 \<le> b \<and> b \<le> 0xBF)"

fun utf8_decode :: "bytes \<Rightarrow> nat list option" where
  "utf8_decode [] = Some []"
| "utf8_decode (b0 # bs) =
     (if b0 < 0x80 then map_option (Cons (unat b0)) (utf8_decode bs)
      else if 0xC2 \<le> b0 \<and> b0 \<le> 0xDF then
        (case bs of
           b1 # rest \<Rightarrow>
             if is_continuation b1
             then map_option (Cons ((unat b0 - 0xC0) * 0x40 + (unat b1 - 0x80))) (utf8_decode rest)
             else None
         | _ \<Rightarrow> None)
      else if 0xE0 \<le> b0 \<and> b0 \<le> 0xEF then
        (case bs of
           b1 # b2 # rest \<Rightarrow>
             let cp = (unat b0 - 0xE0) * 0x1000 + (unat b1 - 0x80) * 0x40 + (unat b2 - 0x80)
             in if is_continuation b1 \<and> is_continuation b2 \<and> 0x800 \<le> cp \<and> is_scalar_value cp
                then map_option (Cons cp) (utf8_decode rest)
                else None
         | _ \<Rightarrow> None)
      else if 0xF0 \<le> b0 \<and> b0 \<le> 0xF4 then
        (case bs of
           b1 # b2 # b3 # rest \<Rightarrow>
             let cp = (unat b0 - 0xF0) * 0x40000 + (unat b1 - 0x80) * 0x1000 +
                      (unat b2 - 0x80) * 0x40 + (unat b3 - 0x80)
             in if is_continuation b1 \<and> is_continuation b2 \<and> is_continuation b3 \<and>
                   0x10000 \<le> cp \<and> cp < 0x110000
                then map_option (Cons cp) (utf8_decode rest)
                else None
         | _ \<Rightarrow> None)
      else None)"

text \<open>
  \<open>mockIpfs.add(content)\<close>. The number drawn by \<open>Math.random()\<close> and its rendering in base
  36 are the platform's; the rendered string \<open>Math.random().toString(36)\<close> is the second
  argument. The content is not read.
\<close>

record add_result =
  path :: js_string

definition mockIpfs_add :: "bytes \<Rightarrow> js_string \<Rightarrow> js_error + add_result" where
  "mockIpfs_add content random36 =
     (let mockHash = js_lit ''Qm'' @ substring random36 2 48
      in Inr \<lparr>path = mockHash\<rparr>)"

text \<open>\<open>mockIpfs.cat(hash)\<close>\<close>

definition mockIpfs_cat :: "js_string \<Rightarrow> js_error + bytes" where
  "mockIpfs_cat hash = Inr (TextEncoder_encode (js_lit ''Mock file content for hash: '' @ hash))"

text \<open>Storing a content and retrieving it under the identifier just returned.\<close>

definition retrieve_stored :: "bytes \<Rightarrow> js_string \<Rightarrow> js_error + bytes" where
  "retrieve_stored content random36 =
     (case mockIpfs_add content random36 of
        Inl err \<Rightarrow> Inl err
      | Inr r \<Rightarrow> mockIpfs_cat (path r))"

section \<open>The simulated contract: write operations and their confirmation objects\<close>

text \<open>
  The timers of the browser: \<open>setTimeout(f, delay)\<close> queues \<open>f\<close> to run \<open>delay\<close>
  milliseconds from now. Pending timers run in the order of their due times, and timers
  due at the same time in the order they were set. The functions a caller passes in are
  opaque; running one is recorded as an invocation with the argument it was given.
\<close>

record confirmation =
  transactionHash :: string

datatype callback = Callback string

datatype argument = HashArg string | ResultArg confirmation

datatype invocation = Invoke callback argument

record timer =
  due :: nat
  thunk :: invocation

record event_loop =
  now :: nat
  timers :: "timer list"
  delivered :: "invocation list"

definition idle_loop :: event_loop where
  "idle_loop = \<lparr>now = 0, timers = [], delivered = []\<rparr>"

definition setTimeout :: "invocation \<Rightarrow> nat \<Rightarrow> event_loop \<Rightarrow> event_loop" where
  "setTimeout f delay loop = loop\<lparr>timers := timers loop @ [\<lparr>due = now loop + delay, thunk = f\<rparr>]\<rparr>"

text \<open>Time passes: the timers that fall due within the next \<open>d\<close> milliseconds run.\<close>

definition advance :: "nat \<Rightarrow> event_loop \<Rightarrow> event_loop" where
  "advance d loop =
     loop\<lparr>now := now loop + d,
          timers := filter (\<lambda>tm. now loop + d < due tm) (timers loop),
          delivered := delivered loop @
            map thunk (sort_key due (filter (\<lambda>tm. due tm \<le> now loop + d) (timers loop)))\<rparr>"

text \<open>Nothing more is called: every pending timer runs.\<close>

definition drain :: "event_loop \<Rightarrow> event_loop" where
  "drain loop =
     loop\<lparr>now := foldl max (now loop) (map due (timers loop)),
          timers := [],
          delivered := delivered loop @ map thunk (sort_key due (timers loop))\<rparr>"

text \<open>The invocations an event loop has run or still holds in a pending timer.\<close>

definition invocations_of :: "event_loop \<Rightarrow> invocation set" where
  "invocations_of loop = set (delivered loop) \<union> thunk ` set (timers loop)"

text \<open>
  \<open>createMockPromiEvent(result)\<close>: the object is determined by \<open>result\<close>. Its three methods
  follow; \<open>on\<close> returns the object itself, \<open>then\<close> and \<open>catch\<close> return
  \<open>Promise.resolve(result)\<close>.
\<close>

datatype mockEvent = MockEvent confirmation

datatype settled_promise = Fulfilled confirmation | Rejected js_error

definition createMockPromiEvent :: "confirmation \<Rightarrow> mockEvent" where
  "createMockPromiEvent result = MockEvent result"

definition Promise_resolve :: "confirmation \<Rightarrow> settled_promise" where
  "Promise_resolve result = Fulfilled result"

fun mockEvent_on :: "mockEvent \<Rightarrow> string \<Rightarrow> callback \<Rightarrow> event_loop \<Rightarrow> mockEvent \<times> event_loop" where
  "mockEvent_on (MockEvent result) event cb loop =
     (if event = ''transactionHash'' then
        (MockEvent result, setTimeout (Invoke cb (HashArg (transactionHash result))) 100 loop)
      else if event = ''error'' then (MockEvent result, loop)
      else (MockEvent result, loop))"

fun mockEvent_then :: "mockEvent \<Rightarrow> callback \<Rightarrow> event_loop \<Rightarrow> settled_promise \<times> event_loop" where
  "mockEvent_then (MockEvent result) resolve loop =
     (Promise_resolve result, setTimeout (Invoke resolve (ResultArg result)) 200 loop)"

fun mockEvent_catch :: "mockEvent \<Rightarrow> callback \<Rightarrow> event_loop \<Rightarrow> settled_promise \<times> event_loop" where
  "mockEvent_catch (MockEvent result) reject loop = (Promise_resolve result, loop)"

text \<open>
  The write operations of \<open>createMockContract(web3).methods\<close>: \<open>methods.op().send()\<close> for
  each of them.
\<close>

datatype write_operation =
    register | permitAccess | buyPolicy | revokeAccess
  | insuranceClaimRequest | createPolicy | approveClaimsByInsurer | rejectClaimsByInsurer

fun mock_send :: "write_operation \<Rightarrow> mockEvent" where
  "mock_send register = createMockPromiEvent \<lparr>transactionHash = ''0xmock123''\<rparr>"
| "mock_send permitAccess = createMockPromiEvent \<lparr>transactionHash = ''0xmock456''\<rparr>"
| "mock_send buyPolicy = createMockPromiEvent \<lparr>transactionHash = ''0xmock789''\<rparr>"
| "mock_send revokeAccess = createMockPromiEvent \<lparr>transactionHash = ''0xmockABC''\<rparr>"
| "mock_send insuranceClaimRequest = createMockPromiEvent \<lparr>transactionHash = ''0xmockDEF''\<rparr>"
| "mock_send createPolicy = createMockPromiEvent \<lparr>transactionHash = ''0xmockGHI''\<rparr>"
| "mock_send approveClaimsByInsurer = createMockPromiEvent \<lparr>transactionHash = ''0xmockJKL''\<rparr>"
| "mock_send rejectClaimsByInsurer = createMockPromiEvent \<lparr>transactionHash = ''0xmockMNO''\<rparr>"

text \<open>
  A caller of a confirmation object: a sequence of method calls, each made some
  milliseconds after the one before it, after which the pending timers run out.
\<close>

datatype method_call = On string callback | Then callback | Catch callback

fun perform :: "mockEvent \<Rightarrow> method_call \<Rightarrow> event_loop \<Rightarrow> event_loop" where
  "perform ev (On event cb) loop = snd (mockEvent_on ev event cb loop)"
| "perform ev (Then resolve) loop = snd (mockEvent_then ev resolve loop)"
| "perform ev (Catch reject) loop = snd (mockEvent_catch ev reject loop)"

fun run_calls :: "mockEvent \<Rightarrow> (nat \<times> method_call) list \<Rightarrow> event_loop \<Rightarrow> event_loop" where
  "run_calls ev [] loop = loop"
| "run_calls ev ((d, c) # cs) loop = run_calls ev cs (perform ev c (advance d loop))"

definition run_to_completion :: "mockEvent \<Rightarrow> (nat \<times> method_call) list \<Rightarrow> invocation list" where
  "run_to_completion ev cs = delivered (drain (run_calls ev cs idle_loop))"

text \<open>\<open>happens_before a b xs\<close>: \<open>a\<close> occurs in \<open>xs\<close>, and \<open>b\<close> occurs after its first occurrence.\<close>

definition happens_before :: "invocation \<Rightarrow> invocation \<Rightarrow> invocation list \<Rightarrow> bool" where
  "happens_before a b xs = (b \<in> set (drop 1 (dropWhile (\<lambda>x. x \<noteq> a) xs)))"

section \<open>Example inputs\<close>

text \<open>
  A deployment table with a contract recorded for network 5777 and the placeholder
  address recorded for network 1337, and environments built from the outcomes of the
  library calls.
\<close>

definition example_artifact :: artifact where
  "example_artifact =
     \<lparr>abi = [''name'', ''register'', ''login''],
      networks = [5777 \<mapsto> \<lparr>address = ''0x5FbDB2315678afecb367f032d93F642f64180aa3''\<rparr>,
                  1337 \<mapsto> \<lparr>address = sentinel_address\<rparr>]\<rparr>"

definition example_env ::
  "provider option \<Rightarrow> js_error + nat \<Rightarrow> js_error option \<Rightarrow> js_error + string \<Rightarrow>
   js_error + string \<Rightarrow> env" where
  "example_env injected netId rejects probe version =
     \<lparr>window_ethereum = injected,
      Web3_givenProvider = None,
      net_getId = (\<lambda>w. netId),
      Contract_rejects = (\<lambda>a addr. rejects),
      name_call = (\<lambda>c. probe),
      ipfs_version = (\<lambda>c. version)\<rparr>"

section \<open>Ledger resolution: results\<close>

lemma fallback_to_mock_eq:
  "fallback_to_mock w st = Inr (st\<lparr>mediChain := Some SimulatedContract\<rparr>)"
  by (simp add: fallback_to_mock_def createMockContract_def setMediChain_def)

lemma getContractInstance_catch_eq:
  "getContractInstance_catch err st = Inr (st\<lparr>mediChain := Some SimulatedContract\<rparr>)"
  by (simp add: getContractInstance_catch_def createMockContract_def setMediChain_def)

text \<open>
  C1. When the provider reports a network identity that has no record in the deployment
  table, or whose record holds the sentinel address, \<open>getContractInstance\<close> publishes the
  simulated contract.
\<close>

theorem getContractInstance_undeployed_simulated:
  assumes "net_getId e (Web3 (chosen_provider e)) = Inr networkId"
    and "networks MediChain networkId = None \<or>
         (\<exists>nd. networks MediChain networkId = Some nd \<and> address nd = sentinel_address)"
  shows "getContractInstance e MediChain st = Inr (st\<lparr>mediChain := Some SimulatedContract\<rparr>)"
  using assms
  by (auto simp: getContractInstance_def getContractInstance_try_def fallback_to_mock_eq)

theorem getContractInstance_undeployed_simulated_witness:
  "getContractInstance
     (example_env (Some (ProviderObject ''MetaMask'')) (Inr 1) None (Inr ''MediChain'') (Inr ''0.4.22''))
     example_artifact App_initial
     = Inr (App_initial\<lparr>mediChain := Some SimulatedContract\<rparr>)
   \<and> getContractInstance
     (example_env (Some (ProviderObject ''MetaMask'')) (Inr 1337) None (Inr ''MediChain'') (Inr ''0.4.22''))
     example_artifact App_initial
     = Inr (App_initial\<lparr>mediChain := Some SimulatedContract\<rparr>)"
proof -
  let ?absent =
    "example_env (Some (ProviderObject ''MetaMask'')) (Inr 1) None (Inr ''MediChain'') (Inr ''0.4.22'')"
  let ?unset =
    "example_env (Some (ProviderObject ''MetaMask'')) (Inr 1337) None (Inr ''MediChain'') (Inr ''0.4.22'')"
  have a1: "net_getId ?absent (Web3 (chosen_provider ?absent)) = Inr 1"
    by (simp add: example_env_def)
  have a2: "networks example_artifact 1 = None \<or>
      (\<exists>nd. networks example_artifact 1 = Some nd \<and> address nd = sentinel_address)"
    by (simp add: example_artifact_def)
  have b1: "net_getId ?unset (Web3 (chosen_provider ?unset)) = Inr 1337"
    by (simp add: example_env_def)
  have b2: "networks example_artifact 1337 = None \<or>
      (\<exists>nd. networks example_artifact 1337 = Some nd \<and> address nd = sentinel_address)"
    by (simp add: example_artifact_def)
  show ?thesis
    using getContractInstance_undeployed_simulated [OF a1 a2, of App_initial]
      getContractInstance_undeployed_simulated [OF b1 b2, of App_initial]
    by simp
qed

text \<open>
  C2. When the provider reports a network identity whose record holds an address other
  than the sentinel, and the liveness probe succeeds (the contract object for the recorded
  interface and address is built and its \<open>name()\<close> call returns), \<open>getContractInstance\<close>
  publishes that contract object, bound to the recorded address and interface.
\<close>

theorem getContractInstance_live_real:
  assumes "net_getId e (Web3 (chosen_provider e)) = Inr networkId"
    and "networks MediChain networkId = Some nd"
    and "address nd \<noteq> sentinel_address"
    and "new_Contract e (Web3 (chosen_provider e)) (abi MediChain) (address nd) = Inr c"
    and "name_call e c = Inr n"
  shows "getContractInstance e MediChain st = Inr (st\<lparr>mediChain := Some (RealContract c)\<rparr>)
         \<and> contract_address c = address nd \<and> contract_abi c = abi MediChain"
  using assms
  by (auto simp: getContractInstance_def getContractInstance_try_def setMediChain_def
      new_Contract_def split: option.splits)

theorem getContractInstance_live_real_witness:
  "getContractInstance
     (example_env (Some (ProviderObject ''MetaMask'')) (Inr 5777) None (Inr ''MediChain'') (Inr ''0.4.22''))
     example_artifact App_initial
     = Inr (App_initial\<lparr>mediChain := Some (RealContract
         \<lparr>contract_web3 = Web3 (ProviderObject ''MetaMask''),
          contract_abi = [''name'', ''register'', ''login''],
          contract_address = ''0x5FbDB2315678afecb367f032d93F642f64180aa3''\<rparr>)\<rparr>)"
proof -
  let ?live =
    "example_env (Some (ProviderObject ''MetaMask'')) (Inr 5777) None (Inr ''MediChain'') (Inr ''0.4.22'')"
  let ?nd = "\<lparr>address = ''0x5FbDB2315678afecb367f032d93F642f64180aa3''\<rparr>"
  let ?c = "\<lparr>contract_web3 = Web3 (ProviderObject ''MetaMask''),
          contract_abi = [''name'', ''register'', ''login''],
          contract_address = ''0x5FbDB2315678afecb367f032d93F642f64180aa3''\<rparr>"
  have h1: "net_getId ?live (Web3 (chosen_provider ?live)) = Inr 5777"
    by (simp add: example_env_def)
  have h2: "networks example_artifact 5777 = Some ?nd"
    by (simp add: example_artifact_def)
  have h3: "address ?nd \<noteq> sentinel_address"
    by (simp add: sentinel_address_def)
  have h4: "new_Contract ?live (Web3 (chosen_provider ?live)) (abi example_artifact) (address ?nd) = Inr ?c"
    by (simp add: new_Contract_def example_env_def example_artifact_def chosen_provider_def)
  have h5: "name_call ?live ?c = Inr ''MediChain''"
    by (simp add: example_env_def)
  show ?thesis
    using getContractInstance_live_real [OF h1 h2 h3 h4 h5, of App_initial] by simp
qed

lemma getContractInstance_returns:
  "\<exists>h. getContractInstance e MediChain st = Inr (st\<lparr>mediChain := Some h\<rparr>)"
  by (auto simp: getContractInstance_def getContractInstance_try_def fallback_to_mock_eq
      getContractInstance_catch_eq setMediChain_def Let_def split: sum.splits option.splits)

lemma getContractInstance_failure:
  assumes "(\<exists>err. net_getId e (Web3 (chosen_provider e)) = Inl err) \<or>
     (\<exists>networkId. net_getId e (Web3 (chosen_provider e)) = Inr networkId \<and>
        (networks MediChain networkId = None \<or>
         (\<exists>nd. networks MediChain networkId = Some nd \<and>
            (address nd = sentinel_address \<or>
             (\<exists>err. new_Contract e (Web3 (chosen_provider e)) (abi MediChain) (address nd) = Inl err) \<or>
             (\<exists>c err. new_Contract e (Web3 (chosen_provider e)) (abi MediChain) (address nd) = Inr c \<and>
                name_call e c = Inl err)))))"
  shows "getContractInstance e MediChain st = Inr (st\<lparr>mediChain := Some SimulatedContract\<rparr>)"
  using assms
  by (auto simp: getContractInstance_def getContractInstance_try_def fallback_to_mock_eq
      getContractInstance_catch_eq Let_def)

text \<open>
  C3. \<open>getContractInstance\<close> never raises: in every environment it returns normally, having
  published a handle. Whenever a stage fails (the network query fails, as it does when no
  provider is reachable; the record is absent or holds the sentinel address; the contract
  constructor throws; the probe fails), the handle published is the simulated contract.
\<close>

theorem getContractInstance_never_raises:
  "(\<exists>h. getContractInstance e MediChain st = Inr (st\<lparr>mediChain := Some h\<rparr>)) \<and>
   ((\<exists>err. net_getId e (Web3 (chosen_provider e)) = Inl err) \<or>
     (\<exists>networkId. net_getId e (Web3 (chosen_provider e)) = Inr networkId \<and>
        (networks MediChain networkId = None \<or>
         (\<exists>nd. networks MediChain networkId = Some nd \<and>
            (address nd = sentinel_address \<or>
             (\<exists>err. new_Contract e (Web3 (chosen_provider e)) (abi MediChain) (address nd) = Inl err) \<or>
             (\<exists>c err. new_Contract e (Web3 (chosen_provider e)) (abi MediChain) (address nd) = Inr c \<and>
                name_call e c = Inl err)))))
    \<longrightarrow> getContractInstance e MediChain st = Inr (st\<lparr>mediChain := Some SimulatedContract\<rparr>))"
  using getContractInstance_returns getContractInstance_failure by blast

theorem getContractInstance_never_raises_witness:
  "getContractInstance
     (example_env None (Inl (Error ''connection refused'')) None (Inr ''MediChain'') (Inr ''0.4.22''))
     example_artifact App_initial
     = Inr (App_initial\<lparr>mediChain := Some SimulatedContract\<rparr>)
   \<and> getContractInstance
     (example_env None (Inr 1) None (Inr ''MediChain'') (Inr ''0.4.22''))
     example_artifact App_initial
     = Inr (App_initial\<lparr>mediChain := Some SimulatedContract\<rparr>)
   \<and> getContractInstance
     (example_env None (Inr 1337) None (Inr ''MediChain'') (Inr ''0.4.22''))
     example_artifact App_initial
     = Inr (App_initial\<lparr>mediChain := Some SimulatedContract\<rparr>)
   \<and> getContractInstance
     (example_env None (Inr 5777) (Some (Error ''invalid address'')) (Inr ''MediChain'') (Inr ''0.4.22''))
     example_artifact App_initial
     = Inr (App_initial\<lparr>mediChain := Some SimulatedContract\<rparr>)
   \<and> getContractInstance
     (example_env None (Inr 5777) None (Inl (Error ''execution reverted'')) (Inr ''0.4.22''))
     example_artifact App_initial
     = Inr (App_initial\<lparr>mediChain := Some SimulatedContract\<rparr>)"
proof -
  let ?offline =
    "example_env None (Inl (Error ''connection refused'')) None (Inr ''MediChain'') (Inr ''0.4.22'')"
  let ?absent =
    "example_env None (Inr 1) None (Inr ''MediChain'') (Inr ''0.4.22'')"
  let ?unset =
    "example_env None (Inr 1337) None (Inr ''MediChain'') (Inr ''0.4.22'')"
  let ?malformed =
    "example_env None (Inr 5777) (Some (Error ''invalid address'')) (Inr ''MediChain'') (Inr ''0.4.22'')"
  let ?dead =
    "example_env None (Inr 5777) None (Inl (Error ''execution reverted'')) (Inr ''0.4.22'')"
  have offline: "\<exists>err. net_getId ?offline (Web3 (chosen_provider ?offline)) = Inl err"
    by (simp add: example_env_def)
  have absent:
    "net_getId ?absent (Web3 (chosen_provider ?absent)) = Inr 1 \<and> networks example_artifact 1 = None"
    by (simp add: example_env_def example_artifact_def)
  have unset:
    "net_getId ?unset (Web3 (chosen_provider ?unset)) = Inr 1337 \<and>
     networks example_artifact 1337 = Some \<lparr>address = sentinel_address\<rparr> \<and>
     address \<lparr>address = sentinel_address\<rparr> = sentinel_address"
    by (simp add: example_env_def example_artifact_def)
  have malformed:
    "net_getId ?malformed (Web3 (chosen_provider ?malformed)) = Inr 5777 \<and>
     networks example_artifact 5777 = Some \<lparr>address = ''0x5FbDB2315678afecb367f032d93F642f64180aa3''\<rparr> \<and>
     (\<exists>err. new_Contract ?malformed (Web3 (chosen_provider ?malformed)) (abi example_artifact)
        (address \<lparr>address = ''0x5FbDB2315678afecb367f032d93F642f64180aa3''\<rparr>) = Inl err)"
    by (simp add: example_env_def example_artifact_def new_Contract_def)
  have dead:
    "net_getId ?dead (Web3 (chosen_provider ?dead)) = Inr 5777 \<and>
     networks example_artifact 5777 = Some \<lparr>address = ''0x5FbDB2315678afecb367f032d93F642f64180aa3''\<rparr> \<and>
     (\<exists>c err. new_Contract ?dead (Web3 (chosen_provider ?dead)) (abi example_artifact)
        (address \<lparr>address = ''0x5FbDB2315678afecb367f032d93F642f64180aa3''\<rparr>) = Inr c \<and>
        name_call ?dead c = Inl err)"
    by (simp add: example_env_def example_artifact_def new_Contract_def)
  from offline
  have r1: "getContractInstance ?offline example_artifact App_initial
      = Inr (App_initial\<lparr>mediChain := Some SimulatedContract\<rparr>)"
    using getContractInstance_never_raises [of ?offline example_artifact App_initial] by blast
  from absent
  have r2: "getContractInstance ?absent example_artifact App_initial
      = Inr (App_initial\<lparr>mediChain := Some SimulatedContract\<rparr>)"
    using getContractInstance_never_raises [of ?absent example_artifact App_initial] by blast
  from unset
  have r3: "getContractInstance ?unset example_artifact App_initial
      = Inr (App_initial\<lparr>mediChain := Some SimulatedContract\<rparr>)"
    using getContractInstance_never_raises [of ?unset example_artifact App_initial] by blast
  from malformed
  have r4: "getContractInstance ?malformed example_artifact App_initial
      = Inr (App_initial\<lparr>mediChain := Some SimulatedContract\<rparr>)"
    using getContractInstance_never_raises [of ?malformed example_artifact App_initial] by blast
  from dead
  have r5: "getContractInstance ?dead example_artifact App_initial
      = Inr (App_initial\<lparr>mediChain := Some SimulatedContract\<rparr>)"
    using getContractInstance_never_raises [of ?dead example_artifact App_initial] by blast
  from r1 r2 r3 r4 r5 show ?thesis by (intro conjI)
qed

section \<open>Content-store resolution: results\<close>

text \<open>
  C4. \<open>setupIPFS\<close> builds one client for the configured endpoint with the 3000 ms timeout
  and issues exactly one \<open>version()\<close> query through it, whatever the outcome. It never
  raises: when the query succeeds it returns that client, and when the query fails it
  returns \<open>mockIpfs\<close>.
\<close>

theorem setupIPFS_single_attempt:
  "fst (setupIPFS e) =
     [VersionQuery (IpfsClient \<lparr>url = ''http://127.0.0.1:5001/api/v0'', timeout = 3000\<rparr>)] \<and>
   (\<exists>h. snd (setupIPFS e) = Inr h) \<and>
   ((\<exists>v. ipfs_version e (IpfsClient \<lparr>url = ''http://127.0.0.1:5001/api/v0'', timeout = 3000\<rparr>) = Inr v)
      \<longrightarrow> snd (setupIPFS e) =
            Inr (RealStore (IpfsClient \<lparr>url = ''http://127.0.0.1:5001/api/v0'', timeout = 3000\<rparr>))) \<and>
   ((\<exists>err. ipfs_version e (IpfsClient \<lparr>url = ''http://127.0.0.1:5001/api/v0'', timeout = 3000\<rparr>) = Inl err)
      \<longrightarrow> snd (setupIPFS e) = Inr mockIpfs)"
  by (auto simp: setupIPFS_def setupIPFS_try_def create_def Let_def split: sum.splits)

theorem setupIPFS_single_attempt_witness:
  "snd (setupIPFS (example_env None (Inr 5777) None (Inr ''MediChain'') (Inr ''0.4.22'')))
     = Inr (RealStore (IpfsClient \<lparr>url = ''http://127.0.0.1:5001/api/v0'', timeout = 3000\<rparr>))
   \<and> snd (setupIPFS (example_env None (Inr 5777) None (Inr ''MediChain'') (Inl (Error ''request timed out''))))
     = Inr mockIpfs"
proof -
  let ?up = "example_env None (Inr 5777) None (Inr ''MediChain'') (Inr ''0.4.22'')"
  let ?down = "example_env None (Inr 5777) None (Inr ''MediChain'') (Inl (Error ''request timed out''))"
  let ?client = "IpfsClient \<lparr>url = ''http://127.0.0.1:5001/api/v0'', timeout = 3000\<rparr>"
  have up: "\<exists>v. ipfs_version ?up ?client = Inr v"
    by (simp add: example_env_def)
  have down: "\<exists>err. ipfs_version ?down ?client = Inl err"
    by (simp add: example_env_def)
  from up have r1: "snd (setupIPFS ?up) = Inr (RealStore ?client)"
    using setupIPFS_single_attempt [of ?up] by blast
  from down have r2: "snd (setupIPFS ?down) = Inr mockIpfs"
    using setupIPFS_single_attempt [of ?down] by blast
  from r1 r2 show ?thesis by simp
qed

section \<open>The simulated content store: results\<close>

lemma not_surrogate_ascii:
  "u < 0x80 \<Longrightarrow> \<not> is_high_surrogate u \<and> \<not> is_low_surrogate u"
  by (simp add: is_high_surrogate_def is_low_surrogate_def word_le_nat_alt word_less_nat_alt)

lemma TextEncoder_encode_Nil: "TextEncoder_encode [] = []"
  by (simp add: TextEncoder_encode_def)

lemma TextEncoder_encode_ascii_Cons:
  "u < 0x80 \<Longrightarrow> TextEncoder_encode (u # us) = ucast u # TextEncoder_encode us"
  using not_surrogate_ascii [of u]
  by (simp add: TextEncoder_encode_def utf8_bytes_def word_less_nat_alt)

text \<open>An identifier of ASCII characters, such as those \<open>add\<close> returns, is encoded unit by unit.\<close>

lemma TextEncoder_encode_ascii:
  "\<forall>u \<in> set s. u < 0x80 \<Longrightarrow> TextEncoder_encode s = map ucast s"
  by (induction s) (simp_all add: TextEncoder_encode_Nil TextEncoder_encode_ascii_Cons)

lemma placeholder_bytes:
  "TextEncoder_encode (js_lit ''Mock file content for hash: '' @ hash)
     = map of_char ''Mock file content for hash: '' @ TextEncoder_encode hash"
  by (simp add: js_lit_def TextEncoder_encode_ascii_Cons)

lemma retrieve_stored_eq:
  "retrieve_stored content random36 =
     Inr (map of_char ''Mock file content for hash: Qm'' @
          TextEncoder_encode (substring random36 2 48))"
  by (simp add: retrieve_stored_def mockIpfs_add_def mockIpfs_cat_def js_lit_def
      TextEncoder_encode_ascii_Cons)

lemma substring_example:
  "substring (js_lit ''0.4fzyo82mvyr'') 2 48 = js_lit ''4fzyo82mvyr''"
  by (simp add: js_lit_def substring_def)

lemma TextEncoder_encode_example:
  "TextEncoder_encode (js_lit ''4fzyo82mvyr'') = map of_char ''4fzyo82mvyr''"
  by (simp add: js_lit_def TextEncoder_encode_ascii_Cons TextEncoder_encode_Nil)

text \<open>The encoder against the yardstick.\<close>

lemma unat_byte: "n < 256 \<Longrightarrow> unat (of_nat n :: 8 word) = n"
  by (simp add: unat_of_nat)

lemma unat_unit: "n < 65536 \<Longrightarrow> unat (of_nat n :: 16 word) = n"
  by (simp add: unat_of_nat)

lemma decode_1:
  "unat b0 < 0x80 \<Longrightarrow> utf8_decode (b0 # rest) = map_option (Cons (unat b0)) (utf8_decode rest)"
  by (simp add: word_less_nat_alt)

lemma decode_2:
  "unat b0 = 0xC0 + hi \<Longrightarrow> 2 \<le> hi \<Longrightarrow> hi < 0x20 \<Longrightarrow> unat b1 = 0x80 + lo \<Longrightarrow> lo < 0x40 \<Longrightarrow>
   utf8_decode (b0 # b1 # rest) = map_option (Cons (hi * 0x40 + lo)) (utf8_decode rest)"
  by (simp add: word_less_nat_alt word_le_nat_alt is_continuation_def)

lemma decode_3:
  "unat b0 = 0xE0 + hi \<Longrightarrow> hi < 0x10 \<Longrightarrow> unat b1 = 0x80 + mid \<Longrightarrow> mid < 0x40 \<Longrightarrow>
   unat b2 = 0x80 + lo \<Longrightarrow> lo < 0x40 \<Longrightarrow>
   0x800 \<le> hi * 0x1000 + mid * 0x40 + lo \<Longrightarrow> is_scalar_value (hi * 0x1000 + mid * 0x40 + lo) \<Longrightarrow>
   utf8_decode (b0 # b1 # b2 # rest) = map_option (Cons (hi * 0x1000 + mid * 0x40 + lo)) (utf8_decode rest)"
  by (simp add: word_less_nat_alt word_le_nat_alt is_continuation_def)

lemma decode_4:
  "unat b0 = 0xF0 + hi \<Longrightarrow> hi < 5 \<Longrightarrow> unat b1 = 0x80 + m1 \<Longrightarrow> m1 < 0x40 \<Longrightarrow>
   unat b2 = 0x80 + m2 \<Longrightarrow> m2 < 0x40 \<Longrightarrow> unat b3 = 0x80 + lo \<Longrightarrow> lo < 0x40 \<Longrightarrow>
   0x10000 \<le> hi * 0x40000 + m1 * 0x1000 + m2 * 0x40 + lo \<Longrightarrow>
   hi * 0x40000 + m1 * 0x1000 + m2 * 0x40 + lo < 0x110000 \<Longrightarrow>
   utf8_decode (b0 # b1 # b2 # b3 # rest)
     = map_option (Cons (hi * 0x40000 + m1 * 0x1000 + m2 * 0x40 + lo)) (utf8_decode rest)"
  by (simp add: word_less_nat_alt word_le_nat_alt is_continuation_def)


lemma split_digits2:
  fixes n a b :: nat
  shows "n div (a * b) * (a * b) + n div a mod b * a + n mod a = n"
proof -
  define q r where "q = n div a div b" and "r = n div a mod b"
  have qr: "q * b + r = n div a"
    unfolding q_def r_def by (rule div_mult_mod_eq)
  have "n div (a * b) = q"
    unfolding q_def by (simp add: div_mult2_eq)
  then have "n div (a * b) * (a * b) + n div a mod b * a = q * (a * b) + r * a"
    by (simp only: r_def)
  also have "\<dots> = (q * b + r) * a"
    by (simp add: algebra_simps)
  also have "\<dots> = n div a * a"
    by (simp only: qr)
  finally show ?thesis
    by (simp only: div_mult_mod_eq)
qed

lemma split_digits3:
  fixes n a b c :: nat
  shows "n div (a * b * c) * (a * b * c) + n div (a * b) mod c * (a * b) + n div a mod b * a + n mod a = n"
proof -
  define q r where "q = n div (a * b) div c" and "r = n div (a * b) mod c"
  have qr: "q * c + r = n div (a * b)"
    unfolding q_def r_def by (rule div_mult_mod_eq)
  have "n div (a * b * c) = q"
    unfolding q_def by (simp add: div_mult2_eq)
  then have "n div (a * b * c) * (a * b * c) + n div (a * b) mod c * (a * b) = q * (a * b * c) + r * (a * b)"
    by (simp only: r_def)
  also have "\<dots> = (q * c + r) * (a * b)"
    by (simp add: algebra_simps)
  also have "\<dots> = n div (a * b) * (a * b)"
    by (simp only: qr)
  finally have "n div (a * b * c) * (a * b * c) + n div (a * b) mod c * (a * b) + n div a mod b * a + n mod a
      = n div (a * b) * (a * b) + n div a mod b * a + n mod a"
    by simp
  then show ?thesis
    by (simp only: split_digits2)
qed

lemma split3: "(n::nat) div 0x1000 * 0x1000 + n div 0x40 mod 0x40 * 0x40 + n mod 0x40 = n"
  using split_digits2 [of n "0x40" "0x40"] by simp

lemma split4:
  "(n::nat) div 0x40000 * 0x40000 + n div 0x1000 mod 0x40 * 0x1000 + n div 0x40 mod 0x40 * 0x40 + n mod 0x40 = n"
  using split_digits3 [of n "0x40" "0x40" "0x40"] by simp

lemma div_bound_3byte: "(n::nat) < 0x10000 \<Longrightarrow> n div 0x1000 < 0x10"
  by (simp add: less_mult_imp_div_less)

lemma div_bound_4byte: "(n::nat) < 0x110000 \<Longrightarrow> n div 0x40000 < 5"
  by (simp add: less_mult_imp_div_less)

lemma div_bound_2byte: "(n::nat) < 0x800 \<Longrightarrow> n div 0x40 < 0x20"
  by (simp add: less_mult_imp_div_less)

lemma div_lower_2byte: "(0x80::nat) \<le> n \<Longrightarrow> 2 \<le> n div 0x40"
  using div_le_mono [of "0x80" n "0x40"] by simp

lemma div_bound_pair: "(n::nat) < 0x100000 \<Longrightarrow> n div 0x400 < 0x400"
  by (simp add: less_mult_imp_div_less)


lemma div_bound_mid: "(n::nat) < 0x1000 \<Longrightarrow> n div 0x40 < 0x40"
  by (simp add: less_mult_imp_div_less)

lemma utf8_decode_bytes:
  assumes "is_scalar_value cp"
  shows "utf8_decode (utf8_bytes cp @ rest) = map_option (Cons cp) (utf8_decode rest)"
proof -
  have "cp < 0x110000"
    using assms by (auto simp: is_scalar_value_def)
  then have "cp < 0x80 \<or> (0x80 \<le> cp \<and> cp < 0x800) \<or> (0x800 \<le> cp \<and> cp < 0x10000)
      \<or> (0x10000 \<le> cp \<and> cp < 0x110000)"
    by linarith
  then consider "cp < 0x80" | "0x80 \<le> cp" "cp < 0x800" | "0x800 \<le> cp" "cp < 0x10000"
    | "0x10000 \<le> cp" "cp < 0x110000"
    by blast
  then show ?thesis
  proof cases
    case 1
    then have "unat (of_nat cp :: 8 word) = cp"
      by (intro unat_byte) simp
    with 1 decode_1 [of "of_nat cp" rest] show ?thesis
      by (simp add: utf8_bytes_def)
  next
    case 2
    define hi lo where "hi = cp div 0x40" and "lo = cp mod 0x40"
    have b: "2 \<le> hi" "hi < 0x20" "lo < 0x40"
      using 2 div_bound_2byte [of cp] div_lower_2byte [of cp] by (simp_all add: hi_def lo_def)
    have e: "hi * 0x40 + lo = cp"
      unfolding hi_def lo_def by (rule div_mult_mod_eq)
    have "unat (of_nat (0xC0 + hi) :: 8 word) = 0xC0 + hi"
      using b by (intro unat_byte) simp
    moreover have "unat (of_nat (0x80 + lo) :: 8 word) = 0x80 + lo"
      using b by (intro unat_byte) simp
    ultimately have "utf8_decode (of_nat (0xC0 + hi) # of_nat (0x80 + lo) # rest)
        = map_option (Cons (hi * 0x40 + lo)) (utf8_decode rest)"
      using b by (intro decode_2)
    moreover have "utf8_bytes cp = [of_nat (0xC0 + hi), of_nat (0x80 + lo)]"
      using 2 by (simp add: utf8_bytes_def hi_def lo_def)
    ultimately show ?thesis by (simp only: e append_Cons append_Nil)
  next
    case 3
    define hi mid lo where "hi = cp div 0x1000" and "mid = cp div 0x40 mod 0x40" and "lo = cp mod 0x40"
    have b: "hi < 0x10" "mid < 0x40" "lo < 0x40"
      using 3 div_bound_3byte [of cp] by (simp_all add: hi_def mid_def lo_def)
    have e: "hi * 0x1000 + mid * 0x40 + lo = cp"
      unfolding hi_def mid_def lo_def by (rule split3)
    have "unat (of_nat (0xE0 + hi) :: 8 word) = 0xE0 + hi"
      using b by (intro unat_byte) simp
    moreover have "unat (of_nat (0x80 + mid) :: 8 word) = 0x80 + mid"
      using b by (intro unat_byte) simp
    moreover have "unat (of_nat (0x80 + lo) :: 8 word) = 0x80 + lo"
      using b by (intro unat_byte) simp
    moreover have "0x800 \<le> hi * 0x1000 + mid * 0x40 + lo"
      using 3 by (simp only: e)
    moreover have "is_scalar_value (hi * 0x1000 + mid * 0x40 + lo)"
      using assms by (simp only: e)
    ultimately have "utf8_decode (of_nat (0xE0 + hi) # of_nat (0x80 + mid) # of_nat (0x80 + lo) # rest)
        = map_option (Cons (hi * 0x1000 + mid * 0x40 + lo)) (utf8_decode rest)"
      using b by (intro decode_3)
    moreover have "utf8_bytes cp = [of_nat (0xE0 + hi), of_nat (0x80 + mid), of_nat (0x80 + lo)]"
      using 3 by (simp add: utf8_bytes_def hi_def mid_def lo_def)
    ultimately show ?thesis by (simp only: e append_Cons append_Nil)
  next
    case 4
    define hi m1 m2 lo where "hi = cp div 0x40000" and "m1 = cp div 0x1000 mod 0x40"
      and "m2 = cp div 0x40 mod 0x40" and "lo = cp mod 0x40"
    have b: "hi < 5" "m1 < 0x40" "m2 < 0x40" "lo < 0x40"
      using 4 div_bound_4byte [of cp] by (simp_all add: hi_def m1_def m2_def lo_def)
    have e: "hi * 0x40000 + m1 * 0x1000 + m2 * 0x40 + lo = cp"
      unfolding hi_def m1_def m2_def lo_def by (rule split4)
    have "unat (of_nat (0xF0 + hi) :: 8 word) = 0xF0 + hi"
      using b by (intro unat_byte) simp
    moreover have "unat (of_nat (0x80 + m1) :: 8 word) = 0x80 + m1"
      using b by (intro unat_byte) simp
    moreover have "unat (of_nat (0x80 + m2) :: 8 word) = 0x80 + m2"
      using b by (intro unat_byte) simp
    moreover have "unat (of_nat (0x80 + lo) :: 8 word) = 0x80 + lo"
      using b by (intro unat_byte) simp
    moreover have "0x10000 \<le> hi * 0x40000 + m1 * 0x1000 + m2 * 0x40 + lo"
      using 4 by (simp only: e)
    moreover have "hi * 0x40000 + m1 * 0x1000 + m2 * 0x40 + lo < 0x110000"
      using 4 by (simp only: e)
    ultimately have "utf8_decode (of_nat (0xF0 + hi) # of_nat (0x80 + m1) # of_nat (0x80 + m2) #
          of_nat (0x80 + lo) # rest)
        = map_option (Cons (hi * 0x40000 + m1 * 0x1000 + m2 * 0x40 + lo)) (utf8_decode rest)"
      using b by (intro decode_4)
    moreover have "utf8_bytes cp = [of_nat (0xF0 + hi), of_nat (0x80 + m1), of_nat (0x80 + m2),
          of_nat (0x80 + lo)]"
      using 4 by (simp add: utf8_bytes_def hi_def m1_def m2_def lo_def)
    ultimately show ?thesis by (simp only: e append_Cons append_Nil)
  qed
qed


lemma unat_unit_less: "unat (u :: 16 word) < 0x10000"
  using unsigned_less [of u, where ?'a = nat] by simp

lemma high_surrogate_unat: "is_high_surrogate u = (0xD800 \<le> unat u \<and> unat u \<le> 0xDBFF)"
  by (simp add: is_high_surrogate_def word_le_nat_alt)

lemma low_surrogate_unat: "is_low_surrogate u = (0xDC00 \<le> unat u \<and> unat u \<le> 0xDFFF)"
  by (simp add: is_low_surrogate_def word_le_nat_alt)

lemma pair_scalar:
  assumes "is_high_surrogate u" "is_low_surrogate v"
  shows "is_scalar_value (0x10000 + (unat u - 0xD800) * 0x400 + (unat v - 0xDC00))"
proof -
  have "unat u - 0xD800 \<le> 0x3FF" "unat v - 0xDC00 \<le> 0x3FF"
    using assms by (auto simp: high_surrogate_unat low_surrogate_unat)
  then have "(unat u - 0xD800) * 0x400 \<le> 0x3FF * 0x400"
    by (intro mult_le_mono1)
  with \<open>unat v - 0xDC00 \<le> 0x3FF\<close> show ?thesis
    by (simp add: is_scalar_value_def)
qed

lemma unit_scalar:
  assumes "\<not> is_high_surrogate u" "\<not> is_low_surrogate u"
  shows "is_scalar_value (unat u)"
  using assms unat_unit_less [of u]
  by (auto simp: high_surrogate_unat low_surrogate_unat is_scalar_value_def)

lemma code_points_scalar: "\<forall>cp \<in> set (code_points s). is_scalar_value cp"
proof (induction s rule: code_points.induct)
  case 1
  then show ?case by simp
next
  case (2 u us)
  have r: "is_scalar_value 0xFFFD"
    by (simp add: is_scalar_value_def)
  show ?case
  proof (cases "is_high_surrogate u")
    case True
    show ?thesis
    proof (cases us)
      case Nil
      with True r show ?thesis by simp
    next
      case (Cons v vs)
      show ?thesis
      proof (cases "is_low_surrogate v")
        case low: True
        from "2.IH"(1) [OF True Cons low] pair_scalar [OF True low]
        show ?thesis using True Cons low by simp
      next
        case notlow: False
        from "2.IH"(2) [OF True Cons notlow] r
        show ?thesis using True Cons notlow by simp
      qed
    qed
  next
    case False
    show ?thesis
    proof (cases "is_low_surrogate u")
      case True
      from "2.IH"(3) [OF False True] r show ?thesis using False True by simp
    next
      case notlow: False
      from "2.IH"(4) [OF False notlow] unit_scalar [OF False notlow]
      show ?thesis using False notlow by simp
    qed
  qed
qed

lemma utf8_decode_concat:
  "\<forall>cp \<in> set cps. is_scalar_value cp \<Longrightarrow>
   utf8_decode (concat (map utf8_bytes cps) @ rest) = map_option (append cps) (utf8_decode rest)"
proof (induction cps)
  case Nil
  then show ?case by (simp add: option.map_ident)
next
  case (Cons cp cps)
  then have "utf8_decode (utf8_bytes cp @ (concat (map utf8_bytes cps) @ rest))
      = map_option (Cons cp) (map_option (append cps) (utf8_decode rest))"
    by (simp add: utf8_decode_bytes del: utf8_decode.simps)
  then show ?case
    by (simp add: option.map_comp comp_def del: utf8_decode.simps)
qed

lemma utf8_decode_encode: "utf8_decode (TextEncoder_encode s) = Some (code_points s)"
  using utf8_decode_concat [OF code_points_scalar, of s "[]"]
  by (simp add: TextEncoder_encode_def)


lemma code_points_units:
  assumes "is_scalar_value cp"
  shows "code_points (utf16_units cp @ rest) = cp # code_points rest"
proof (cases "cp < 0x10000")
  case True
  then have u: "unat (of_nat cp :: 16 word) = cp"
    by (intro unat_unit) simp
  have "\<not> is_high_surrogate (of_nat cp)" "\<not> is_low_surrogate (of_nat cp)"
    using assms True by (auto simp: high_surrogate_unat low_surrogate_unat u is_scalar_value_def)
  then show ?thesis
    using True u by (simp add: utf16_units_def)
next
  case False
  define x where "x = cp - 0x10000"
  have x: "x < 0x100000" "cp = 0x10000 + x"
    using assms False by (auto simp: x_def is_scalar_value_def)
  define hi lo where "hi = x div 0x400" and "lo = x mod 0x400"
  have b: "hi < 0x400" "lo < 0x400"
    using x(1) div_bound_pair [of x] by (simp_all add: hi_def lo_def)
  have e: "hi * 0x400 + lo = x"
    unfolding hi_def lo_def by (rule div_mult_mod_eq)
  have h: "unat (of_nat (0xD800 + hi) :: 16 word) = 0xD800 + hi"
    using b by (intro unat_unit) simp
  have l: "unat (of_nat (0xDC00 + lo) :: 16 word) = 0xDC00 + lo"
    using b by (intro unat_unit) simp
  have hs: "is_high_surrogate (of_nat (0xD800 + hi))"
    using b by (simp only: high_surrogate_unat h) simp
  have ls: "is_low_surrogate (of_nat (0xDC00 + lo))"
    using b by (simp only: low_surrogate_unat l) simp
  have "code_points (of_nat (0xD800 + hi) # of_nat (0xDC00 + lo) # rest)
      = (0x10000 + (0xD800 + hi - 0xD800) * 0x400 + (0xDC00 + lo - 0xDC00)) # code_points rest"
    using hs ls by (simp only: code_points.simps list.case if_True h l)
  moreover have "utf16_units cp = [of_nat (0xD800 + hi), of_nat (0xDC00 + lo)]"
    using False by (simp add: utf16_units_def hi_def lo_def x_def)
  ultimately show ?thesis
    using e x(2) by simp
qed

lemma code_points_utf16_encode:
  "\<forall>cp \<in> set cps. is_scalar_value cp \<Longrightarrow> code_points (utf16_encode cps @ rest) = cps @ code_points rest"
  by (induction cps) (simp_all add: utf16_encode_def code_points_units del: code_points.simps)

lemma TextEncoder_encode_lone:
  "is_high_surrogate u \<or> is_low_surrogate u \<Longrightarrow> TextEncoder_encode [u] = [0xEF, 0xBF, 0xBD]"
  by (auto simp: TextEncoder_encode_def utf8_bytes_def)

lemma code_points_append:
  "\<not> (s \<noteq> [] \<and> t \<noteq> [] \<and> is_high_surrogate (last s) \<and> is_low_surrogate (hd t)) \<Longrightarrow>
   code_points (s @ t) = code_points s @ code_points t"
proof (induction s rule: code_points.induct)
  case 1
  then show ?case by simp
next
  case (2 u us)
  show ?case
  proof (cases "is_high_surrogate u")
    case True
    show ?thesis
    proof (cases us)
      case Nil
      with True "2.prems" show ?thesis
        by (cases t) simp_all
    next
      case (Cons v vs)
      show ?thesis
      proof (cases "is_low_surrogate v")
        case low: True
        have "\<not> (vs \<noteq> [] \<and> t \<noteq> [] \<and> is_high_surrogate (last vs) \<and> is_low_surrogate (hd t))"
          using "2.prems" Cons by auto
        from "2.IH"(1) [OF True Cons low this]
        show ?thesis using True Cons low by simp
      next
        case notlow: False
        have "\<not> (us \<noteq> [] \<and> t \<noteq> [] \<and> is_high_surrogate (last us) \<and> is_low_surrogate (hd t))"
          using "2.prems" Cons by auto
        from "2.IH"(2) [OF True Cons notlow this]
        show ?thesis using True Cons notlow by simp
      qed
    qed
  next
    case False
    have p: "\<not> (us \<noteq> [] \<and> t \<noteq> [] \<and> is_high_surrogate (last us) \<and> is_low_surrogate (hd t))"
      using "2.prems" by auto
    show ?thesis
    proof (cases "is_low_surrogate u")
      case True
      from "2.IH"(3) [OF False True p] show ?thesis using False True by simp
    next
      case notlow: False
      from "2.IH"(4) [OF False notlow p] show ?thesis using False notlow by simp
    qed
  qed
qed

lemma TextEncoder_encode_append:
  "\<not> (s \<noteq> [] \<and> t \<noteq> [] \<and> is_high_surrogate (last s) \<and> is_low_surrogate (hd t)) \<Longrightarrow>
   TextEncoder_encode (s @ t) = TextEncoder_encode s @ TextEncoder_encode t"
  by (simp add: TextEncoder_encode_def code_points_append)

lemma code_points_ascii_Cons: "u < 0x80 \<Longrightarrow> code_points (u # us) = unat u # code_points us"
  using not_surrogate_ascii [of u] by simp

lemma placeholder_code_points:
  "code_points (js_lit ''Mock file content for hash: '' @ hash)
     = map of_char ''Mock file content for hash: '' @ code_points hash"
  by (simp add: js_lit_def code_points_ascii_Cons del: code_points.simps)

text \<open>
  C5, as the code has it. Every call of \<open>mockIpfs.add\<close> returns an identifier that begins
  with \<open>Qm\<close>. The identifiers of two calls differ exactly when the renderings of their two
  random draws differ between positions 2 and 48; nothing is remembered from one call to
  the next, so two equal draws give two equal identifiers.
\<close>

theorem mockIpfs_add_identifier:
  "\<exists>r1 r2. mockIpfs_add content1 random1 = Inr r1 \<and> mockIpfs_add content2 random2 = Inr r2 \<and>
     take 2 (path r1) = js_lit ''Qm'' \<and> take 2 (path r2) = js_lit ''Qm'' \<and>
     (path r1 \<noteq> path r2) = (substring random1 2 48 \<noteq> substring random2 2 48)"
  by (simp add: mockIpfs_add_def js_lit_def)

text \<open>
  C5 as stated fails: two calls whose random draws are both rendered \<open>0.4fzyo82mvyr\<close>
  return the same identifier.
\<close>

theorem mockIpfs_add_repeats_counterexample:
  "mockIpfs_add [0x01, 0x02] (js_lit ''0.4fzyo82mvyr'') = Inr \<lparr>path = js_lit ''Qm4fzyo82mvyr''\<rparr> \<and>
   mockIpfs_add [0x03] (js_lit ''0.4fzyo82mvyr'') = Inr \<lparr>path = js_lit ''Qm4fzyo82mvyr''\<rparr>"
  by (simp add: mockIpfs_add_def js_lit_def substring_def)

text \<open>
  C6. \<open>mockIpfs.cat\<close> takes the identifier and nothing else. For every identifier,
  whether or not \<open>add\<close> ever returned it, the call returns normally, and its result is the
  UTF-8 encoding of \<open>Mock file content for hash: \<close> followed by the identifier: the 28
  bytes of the literal, then the encoding of the identifier. That encoding is UTF-8: the
  result always decodes, under the strict decoder, to the code points of the literal
  followed by those of the identifier; for an identifier that is the UTF-16 form of a
  sequence of scalar values these are the scalar values themselves; an unpaired surrogate
  is encoded as U+FFFD (EF BF BD); the encoding of a string is the encodings of its parts,
  wherever the cut does not separate a surrogate pair; and an identifier of ASCII
  characters is encoded unit by unit.
\<close>

theorem mockIpfs_cat_placeholder:
  "mockIpfs_cat hash = Inr (TextEncoder_encode (js_lit ''Mock file content for hash: '' @ hash)) \<and>
   mockIpfs_cat hash = Inr (map of_char ''Mock file content for hash: '' @ TextEncoder_encode hash) \<and>
   (\<exists>content. mockIpfs_cat hash = Inr content \<and>
      utf8_decode content = Some (map of_char ''Mock file content for hash: '' @ code_points hash)) \<and>
   (\<forall>cps. (\<forall>cp \<in> set cps. is_scalar_value cp) \<and> hash = utf16_encode cps \<longrightarrow>
      (\<exists>content. mockIpfs_cat hash = Inr content \<and>
         utf8_decode content = Some (map of_char ''Mock file content for hash: '' @ cps))) \<and>
   (\<forall>u. is_high_surrogate u \<or> is_low_surrogate u \<longrightarrow> TextEncoder_encode [u] = [0xEF, 0xBF, 0xBD]) \<and>
   (\<forall>s t. \<not> (s \<noteq> [] \<and> t \<noteq> [] \<and> is_high_surrogate (last s) \<and> is_low_surrogate (hd t)) \<longrightarrow>
      TextEncoder_encode (s @ t) = TextEncoder_encode s @ TextEncoder_encode t) \<and>
   ((\<forall>u \<in> set hash. u < 0x80) \<longrightarrow> TextEncoder_encode hash = map ucast hash)"
proof -
  have c1: "mockIpfs_cat hash = Inr (TextEncoder_encode (js_lit ''Mock file content for hash: '' @ hash))"
    by (simp only: mockIpfs_cat_def)
  have c2: "mockIpfs_cat hash = Inr (map of_char ''Mock file content for hash: '' @ TextEncoder_encode hash)"
    by (simp only: mockIpfs_cat_def placeholder_bytes)
  have d: "utf8_decode (TextEncoder_encode (js_lit ''Mock file content for hash: '' @ hash))
      = Some (map of_char ''Mock file content for hash: '' @ code_points hash)"
    by (simp only: utf8_decode_encode placeholder_code_points)
  have c3: "\<exists>content. mockIpfs_cat hash = Inr content \<and>
      utf8_decode content = Some (map of_char ''Mock file content for hash: '' @ code_points hash)"
    using c1 d by blast
  have c4: "\<forall>cps. (\<forall>cp \<in> set cps. is_scalar_value cp) \<and> hash = utf16_encode cps \<longrightarrow>
      (\<exists>content. mockIpfs_cat hash = Inr content \<and>
         utf8_decode content = Some (map of_char ''Mock file content for hash: '' @ cps))"
  proof (intro allI impI)
    fix cps
    assume a: "(\<forall>cp \<in> set cps. is_scalar_value cp) \<and> hash = utf16_encode cps"
    then have "code_points hash = cps"
      using code_points_utf16_encode [of cps "[]"] by simp
    with c3 show "\<exists>content. mockIpfs_cat hash = Inr content \<and>
         utf8_decode content = Some (map of_char ''Mock file content for hash: '' @ cps)"
      by simp
  qed
  have c5: "\<forall>u. is_high_surrogate u \<or> is_low_surrogate u \<longrightarrow> TextEncoder_encode [u] = [0xEF, 0xBF, 0xBD]"
    by (simp add: TextEncoder_encode_lone)
  have c6: "\<forall>s t. \<not> (s \<noteq> [] \<and> t \<noteq> [] \<and> is_high_surrogate (last s) \<and> is_low_surrogate (hd t)) \<longrightarrow>
      TextEncoder_encode (s @ t) = TextEncoder_encode s @ TextEncoder_encode t"
    using TextEncoder_encode_append by blast
  have c7: "(\<forall>u \<in> set hash. u < 0x80) \<longrightarrow> TextEncoder_encode hash = map ucast hash"
    using TextEncoder_encode_ascii by blast
  from c1 c2 c3 c4 c5 c6 c7 show ?thesis by (intro conjI)
qed

theorem mockIpfs_cat_placeholder_witness:
  "utf8_decode (map of_char ''Mock file content for hash: '' @
       TextEncoder_encode [0x51, 0x6D, 0x20AC, 0xD83D, 0xDE00])
     = Some (map of_char ''Mock file content for hash: '' @ [0x51, 0x6D, 0x20AC, 0x1F600])
   \<and> TextEncoder_encode [0xD800] = [0xEF, 0xBF, 0xBD]
   \<and> TextEncoder_encode ([0xD83D] @ [0x41]) = TextEncoder_encode [0xD83D] @ TextEncoder_encode [0x41]
   \<and> TextEncoder_encode [0x51, 0x6D, 0x34] = map ucast [0x51, 0x6D, 0x34 :: 16 word]"
proof -
  let ?h = "[0x51, 0x6D, 0x20AC, 0xD83D, 0xDE00] :: js_string"
  let ?cps = "[0x51, 0x6D, 0x20AC, 0x1F600] :: nat list"
  have wf: "(\<forall>cp \<in> set ?cps. is_scalar_value cp) \<and> ?h = utf16_encode ?cps"
    by (simp add: is_scalar_value_def utf16_encode_def utf16_units_def)
  have "\<exists>content. mockIpfs_cat ?h = Inr content \<and>
      utf8_decode content = Some (map of_char ''Mock file content for hash: '' @ ?cps)"
    using mockIpfs_cat_placeholder [of ?h] wf by blast
  moreover have "mockIpfs_cat ?h
      = Inr (map of_char ''Mock file content for hash: '' @ TextEncoder_encode ?h)"
    using mockIpfs_cat_placeholder [of ?h] by blast
  ultimately have r1: "utf8_decode (map of_char ''Mock file content for hash: '' @ TextEncoder_encode ?h)
      = Some (map of_char ''Mock file content for hash: '' @ ?cps)"
    by (metis sum.inject(2))
  have lone: "is_high_surrogate 0xD800 \<or> is_low_surrogate 0xD800"
    by (simp add: is_high_surrogate_def)
  have r2: "TextEncoder_encode [0xD800] = [0xEF, 0xBF, 0xBD]"
    using mockIpfs_cat_placeholder [of "[]"] lone by blast
  have cut: "\<not> ([0xD83D :: 16 word] \<noteq> [] \<and> [0x41 :: 16 word] \<noteq> [] \<and>
      is_high_surrogate (last [0xD83D]) \<and> is_low_surrogate (hd [0x41]))"
    by (simp add: is_low_surrogate_def)
  have r3: "TextEncoder_encode ([0xD83D] @ [0x41]) = TextEncoder_encode [0xD83D] @ TextEncoder_encode [0x41]"
    using mockIpfs_cat_placeholder [of "[]"] cut by blast
  have ascii: "\<forall>u \<in> set [0x51, 0x6D, 0x34 :: 16 word]. u < 0x80"
    by simp
  have r4: "TextEncoder_encode [0x51, 0x6D, 0x34] = map ucast [0x51, 0x6D, 0x34 :: 16 word]"
    using mockIpfs_cat_placeholder [of "[0x51, 0x6D, 0x34]"] ascii by blast
  from r1 r2 r3 r4 show ?thesis by (intro conjI)
qed

text \<open>
  C10, as the code has it. The identifier returned by \<open>mockIpfs.add\<close> does not depend on
  the content: two contents stored with the same random draw get the same identifier, and
  retrieving under it gives the same bytes for both, the placeholder for that identifier.
  What is retrieved is the stored content only when the stored content is itself exactly
  that placeholder.
\<close>

theorem mockIpfs_add_ignores_content:
  "mockIpfs_add content1 random36 = mockIpfs_add content2 random36 \<and>
   retrieve_stored content1 random36 = retrieve_stored content2 random36 \<and>
   (retrieve_stored content1 random36 = Inr content1) =
     (content1 = map of_char ''Mock file content for hash: Qm'' @
                 TextEncoder_encode (substring random36 2 48))"
proof -
  have "mockIpfs_add content1 random36 = mockIpfs_add content2 random36"
    by (simp add: mockIpfs_add_def)
  moreover have "retrieve_stored content1 random36 = retrieve_stored content2 random36"
    by (simp only: retrieve_stored_eq)
  moreover have "(retrieve_stored content1 random36 = Inr content1) =
     (content1 = map of_char ''Mock file content for hash: Qm'' @
                 TextEncoder_encode (substring random36 2 48))"
    unfolding retrieve_stored_eq by (rule iffI) (simp_all only: sum.inject)
  ultimately show ?thesis by (intro conjI)
qed

text \<open>
  C10 as stated fails in its last part: when the content stored is the placeholder text
  of the identifier that the draw produces, retrieving returns the content stored.
\<close>

theorem retrieve_stored_returns_content_counterexample:
  "retrieve_stored (map of_char ''Mock file content for hash: Qm4fzyo82mvyr'')
     (js_lit ''0.4fzyo82mvyr'')
     = Inr (map of_char ''Mock file content for hash: Qm4fzyo82mvyr'')"
  unfolding retrieve_stored_eq substring_example TextEncoder_encode_example by simp

section \<open>The handles before resolution completes: results\<close>

lemma ledger_resume_cases:
  "getContractInstance_resume e MediChain t st = (t', st') \<Longrightarrow>
   (t' = t \<and> st' = st \<and> (t = LedgerReturned \<or> (\<exists>err. t = LedgerRaised err))) \<or>
   ((\<exists>w. t = AwaitGetId w) \<and> (\<exists>w c. t' = AwaitProbe w c) \<and> st' = st) \<or>
   (((\<exists>w. t = AwaitGetId w) \<or> (\<exists>w c. t = AwaitProbe w c)) \<and> t' = LedgerReturned \<and>
      (\<exists>h. st' = st\<lparr>mediChain := Some h\<rparr>))"
  by (cases t)
    (auto simp: ledger_settle_def fallback_to_mock_eq getContractInstance_catch_eq setMediChain_def
      split: sum.splits option.splits if_splits)

lemma store_resume_cases:
  "initializeIPFS_resume e t st = (t', st') \<Longrightarrow>
   (t' = t \<and> st' = st \<and> (t = StoreReturned \<or> (\<exists>err. t = StoreRaised err))) \<or>
   ((\<exists>c. t = AwaitVersion c) \<and> (\<exists>h. t' = AwaitSetup (Inr h)) \<and> st' = st) \<or>
   ((\<exists>h. t = AwaitSetup (Inr h) \<and> st' = st\<lparr>ipfs := h\<rparr>) \<and> t' = StoreReturned) \<or>
   ((\<exists>err. t = AwaitSetup (Inl err) \<and> t' = StoreRaised err) \<and> st' = st)"
  by (cases "(e, t, st)" rule: initializeIPFS_resume.cases)
    (auto simp: setIpfs_def split: sum.splits)

lemma handles_pending_mount: "handles_pending (mount e)"
  by (simp add: handles_pending_def mount_def App_initial_def getContractInstance_start_def
      initializeIPFS_start_def)

lemma handles_pending_step:
  assumes "handles_pending s"
  shows "handles_pending (app_step e MediChain s ev)"
proof (cases ev)
  case LedgerResumes
  obtain t' st' where r: "getContractInstance_resume e MediChain (ledger s) (component s) = (t', st')"
    by (cases "getContractInstance_resume e MediChain (ledger s) (component s)")
  from ledger_resume_cases [OF r] assms show ?thesis
    using LedgerResumes r
    by (auto simp: handles_pending_def split: ledger_task.splits store_task.splits)
next
  case StoreResumes
  obtain t' st' where r: "initializeIPFS_resume e (store s) (component s) = (t', st')"
    by (cases "initializeIPFS_resume e (store s) (component s)")
  from store_resume_cases [OF r] assms show ?thesis
    using StoreResumes r
    by (auto simp: handles_pending_def split: ledger_task.splits store_task.splits)
next
  case (SetAccount a)
  with assms show ?thesis
    by (auto simp: handles_pending_def split: ledger_task.splits store_task.splits)
next
  case (SetToken t)
  with assms show ?thesis
    by (auto simp: handles_pending_def split: ledger_task.splits store_task.splits)
qed

lemma handles_pending_foldl:
  "handles_pending s \<Longrightarrow> handles_pending (foldl (app_step e MediChain) s evs)"
  by (induction evs arbitrary: s) (simp_all add: handles_pending_step)

lemma handles_pending_run: "handles_pending (app_run e MediChain evs)"
  by (simp add: app_run_def handles_pending_foldl handles_pending_mount)

text \<open>
  The tasks are the two functions cut at their \<open>await\<close>s: resumed to the end, each task
  leaves the component in the state its function returns.
\<close>

lemma ledger_task_agrees:
  "ledger (app_run e MediChain [LedgerResumes, LedgerResumes]) = LedgerReturned \<and>
   Inr (component (app_run e MediChain [LedgerResumes, LedgerResumes]))
     = getContractInstance e MediChain App_initial"
  by (auto simp: app_run_def mount_def getContractInstance_start_def getContractInstance_def
      getContractInstance_try_def ledger_settle_def fallback_to_mock_eq getContractInstance_catch_eq
      Let_def split: sum.splits option.splits)

lemma store_task_agrees:
  "store (app_run e MediChain [StoreResumes, StoreResumes]) = StoreReturned \<and>
   Inr (component (app_run e MediChain [StoreResumes, StoreResumes]))
     = initializeIPFS e App_initial"
  by (auto simp: app_run_def mount_def initializeIPFS_start_def initializeIPFS_def setupIPFS_def
      setupIPFS_try_def Let_def split: sum.splits)

text \<open>
  C9. The ledger handle starts as \<open>null\<close> and the store handle as \<open>mockIpfs\<close>. After any
  sequence of events, as long as \<open>getContractInstance\<close> has not returned the ledger handle
  passed to the views is still \<open>null\<close> (not the simulated contract), and it is set once it
  has returned; as long as \<open>initializeIPFS\<close> has not returned the store handle is still
  \<open>mockIpfs\<close>, both of whose operations return normally on every argument.
\<close>

theorem handles_before_resolution:
  "mediChain App_initial = None \<and> ipfs App_initial = mockIpfs \<and>
   (ledger (app_run e MediChain evs) \<noteq> LedgerReturned
      \<longrightarrow> mediChain (component (app_run e MediChain evs)) = None) \<and>
   (ledger (app_run e MediChain evs) = LedgerReturned
      \<longrightarrow> mediChain (component (app_run e MediChain evs)) \<noteq> None) \<and>
   (store (app_run e MediChain evs) \<noteq> StoreReturned
      \<longrightarrow> ipfs (component (app_run e MediChain evs)) = mockIpfs) \<and>
   (\<exists>r. mockIpfs_add content random36 = Inr r) \<and> (\<exists>b. mockIpfs_cat hash = Inr b)"
  using handles_pending_run [of e MediChain evs]
  by (auto simp: handles_pending_def App_initial_def mockIpfs_add_def mockIpfs_cat_def
      split: ledger_task.splits store_task.splits)

theorem handles_before_resolution_witness:
  "mediChain (component (app_run
       (example_env None (Inr 5777) None (Inr ''MediChain'') (Inr ''0.4.22''))
       example_artifact [SetAccount ''0xA1'', LedgerResumes, StoreResumes])) = None
   \<and> ipfs (component (app_run
       (example_env None (Inr 5777) None (Inr ''MediChain'') (Inr ''0.4.22''))
       example_artifact [SetAccount ''0xA1'', LedgerResumes, StoreResumes])) = mockIpfs
   \<and> mediChain (component (app_run
       (example_env None (Inr 5777) None (Inr ''MediChain'') (Inr ''0.4.22''))
       example_artifact [LedgerResumes, LedgerResumes])) \<noteq> None"
proof -
  let ?e = "example_env None (Inr 5777) None (Inr ''MediChain'') (Inr ''0.4.22'')"
  let ?early = "[SetAccount ''0xA1'', LedgerResumes, StoreResumes]"
  let ?late = "[LedgerResumes, LedgerResumes]"
  have l1: "ledger (app_run ?e example_artifact ?early) \<noteq> LedgerReturned"
    by (simp add: app_run_def mount_def getContractInstance_start_def initializeIPFS_start_def
        example_env_def example_artifact_def sentinel_address_def new_Contract_def)
  have s1: "store (app_run ?e example_artifact ?early) \<noteq> StoreReturned"
    by (simp add: app_run_def mount_def getContractInstance_start_def initializeIPFS_start_def
        example_env_def example_artifact_def sentinel_address_def new_Contract_def create_def)
  have l2: "ledger (app_run ?e example_artifact ?late) = LedgerReturned"
    by (simp add: app_run_def mount_def getContractInstance_start_def initializeIPFS_start_def
        example_env_def example_artifact_def sentinel_address_def new_Contract_def)
  from l1 have r1: "mediChain (component (app_run ?e example_artifact ?early)) = None"
    using handles_before_resolution [of ?e example_artifact ?early] by blast
  from s1 have r2: "ipfs (component (app_run ?e example_artifact ?early)) = mockIpfs"
    using handles_before_resolution [of ?e example_artifact ?early] by blast
  from l2 have r3: "mediChain (component (app_run ?e example_artifact ?late)) \<noteq> None"
    using handles_before_resolution [of ?e example_artifact ?late] by blast
  from r1 r2 r3 show ?thesis by (intro conjI)
qed

section \<open>The simulated contract: results\<close>

lemma mock_send_result:
  "\<exists>h. h \<noteq> [] \<and> mock_send op = MockEvent \<lparr>transactionHash = h\<rparr>"
  by (cases op) (simp_all add: createMockPromiEvent_def)

lemma mock_send_inj: "(mock_send op = mock_send op') = (op = op')"
  by (cases op; cases op') (simp_all add: createMockPromiEvent_def)

lemma invocations_of_advance: "invocations_of (advance d loop) = invocations_of loop"
proof -
  have "set (timers loop) =
      {x \<in> set (timers loop). now loop + d < due x} \<union> {x \<in> set (timers loop). due x \<le> now loop + d}"
    by auto
  then have "thunk ` set (timers loop) =
      thunk ` {x \<in> set (timers loop). now loop + d < due x} \<union>
      thunk ` {x \<in> set (timers loop). due x \<le> now loop + d}"
    by (metis image_Un)
  then show ?thesis
    by (auto simp: invocations_of_def advance_def)
qed

lemma invocations_of_setTimeout:
  "invocations_of (setTimeout f delay loop) = insert f (invocations_of loop)"
  by (auto simp: invocations_of_def setTimeout_def)

lemma invocations_of_idle: "invocations_of idle_loop = {}"
  by (simp add: invocations_of_def idle_loop_def)

lemma delivered_drain: "set (delivered (drain loop)) = invocations_of loop"
  by (auto simp: drain_def invocations_of_def)

text \<open>Only \<open>then\<close> and \<open>on('transactionHash', ...)\<close> ever put a callback on a timer.\<close>

lemma run_calls_sound:
  "Invoke cb a \<in> invocations_of (run_calls (MockEvent result) cs loop) \<Longrightarrow>
   Invoke cb a \<in> invocations_of loop \<or>
   (\<exists>d. (d, Then cb) \<in> set cs) \<or> (\<exists>d. (d, On ''transactionHash'' cb) \<in> set cs)"
proof (induction cs arbitrary: loop)
  case Nil
  then show ?case by simp
next
  case (Cons x cs)
  obtain d c where x: "x = (d, c)" by (cases x)
  from Cons.prems x
  have "Invoke cb a
      \<in> invocations_of (run_calls (MockEvent result) cs (perform (MockEvent result) c (advance d loop)))"
    by simp
  from Cons.IH [OF this]
  consider "Invoke cb a \<in> invocations_of (perform (MockEvent result) c (advance d loop))"
    | "(\<exists>d. (d, Then cb) \<in> set cs) \<or> (\<exists>d. (d, On ''transactionHash'' cb) \<in> set cs)"
    by blast
  then show ?case
  proof cases
    case 1
    then show ?thesis
      using x
      by (cases c)
        (auto simp: invocations_of_setTimeout invocations_of_advance Promise_resolve_def
          split: if_splits)
  next
    case 2
    then show ?thesis by auto
  qed
qed

text \<open>A timer, once set, is run or stays pending: later calls never cancel it.\<close>

lemma run_calls_mono:
  "f \<in> invocations_of loop \<Longrightarrow> f \<in> invocations_of (run_calls (MockEvent result) cs loop)"
proof (induction cs arbitrary: loop)
  case Nil
  then show ?case by simp
next
  case (Cons x cs)
  obtain d c where x: "x = (d, c)" by (cases x)
  have "f \<in> invocations_of (perform (MockEvent result) c (advance d loop))"
    using Cons.prems by (cases c) (simp_all add: invocations_of_setTimeout invocations_of_advance)
  from Cons.IH [OF this] show ?case using x by simp
qed

lemma run_calls_complete:
  "(d, Then resolve) \<in> set cs \<Longrightarrow>
   Invoke resolve (ResultArg result) \<in> invocations_of (run_calls (MockEvent result) cs loop)"
proof (induction cs arbitrary: loop)
  case Nil
  then show ?case by simp
next
  case (Cons x cs)
  show ?case
  proof (cases "x = (d, Then resolve)")
    case True
    have "Invoke resolve (ResultArg result)
        \<in> invocations_of (perform (MockEvent result) (Then resolve) (advance d loop))"
      by (simp add: invocations_of_setTimeout)
    from run_calls_mono [OF this] show ?thesis using True by simp
  next
    case False
    with Cons.prems have "(d, Then resolve) \<in> set cs" by simp
    from Cons.IH [OF this] show ?thesis by (cases x) simp
  qed
qed

lemma run_to_completion_sound:
  "Invoke cb a \<in> set (run_to_completion (MockEvent result) cs) \<Longrightarrow>
   (\<exists>d. (d, Then cb) \<in> set cs) \<or> (\<exists>d. (d, On ''transactionHash'' cb) \<in> set cs)"
  using run_calls_sound [of cb a result cs idle_loop]
  by (simp add: run_to_completion_def delivered_drain invocations_of_idle)

lemma run_to_completion_complete:
  "(d, Then resolve) \<in> set cs \<Longrightarrow>
   Invoke resolve (ResultArg result) \<in> set (run_to_completion (MockEvent result) cs)"
  using run_calls_complete [of d resolve cs result idle_loop]
  by (simp add: run_to_completion_def delivered_drain)

lemma then_only:
  "run_to_completion (MockEvent \<lparr>transactionHash = h\<rparr>) [(d, Then resolve)]
   = [Invoke resolve (ResultArg \<lparr>transactionHash = h\<rparr>)]"
  by (simp add: run_to_completion_def advance_def drain_def setTimeout_def idle_loop_def
      Promise_resolve_def)

lemma on_first:
  "run_to_completion (MockEvent \<lparr>transactionHash = h\<rparr>)
     [(d1, On ''transactionHash'' cb), (d2, Then resolve)]
   = [Invoke cb (HashArg h), Invoke resolve (ResultArg \<lparr>transactionHash = h\<rparr>)]"
  by (simp add: run_to_completion_def advance_def drain_def setTimeout_def idle_loop_def
      Promise_resolve_def)

lemma then_first:
  "run_to_completion (MockEvent \<lparr>transactionHash = h\<rparr>)
     [(d1, Then resolve), (d2, On ''transactionHash'' cb)]
   = (if d2 < 100
      then [Invoke cb (HashArg h), Invoke resolve (ResultArg \<lparr>transactionHash = h\<rparr>)]
      else [Invoke resolve (ResultArg \<lparr>transactionHash = h\<rparr>), Invoke cb (HashArg h)])"
  by (simp add: run_to_completion_def advance_def drain_def setTimeout_def idle_loop_def
      Promise_resolve_def)

text \<open>
  C7. For each of the eight write operations, \<open>send()\<close> returns a confirmation object built
  from one fixed, non-empty transaction hash, and different operations have different
  objects. Whenever \<open>then\<close> is called on the object, the callback passed is run with the
  confirmation holding that hash, and \<open>then\<close> and \<open>catch\<close> return a promise fulfilled with
  it. A callback is only ever run when it was passed to \<open>then\<close> or registered for
  \<open>transactionHash\<close>: one registered for \<open>error\<close>, or passed to \<open>catch\<close>, is never run.
\<close>

theorem mock_write_always_confirms:
  "\<exists>h. h \<noteq> [] \<and> mock_send op = createMockPromiEvent \<lparr>transactionHash = h\<rparr> \<and>
     (\<forall>op'. (mock_send op' = mock_send op) = (op' = op)) \<and>
     (\<forall>d resolve. run_to_completion (mock_send op) [(d, Then resolve)]
        = [Invoke resolve (ResultArg \<lparr>transactionHash = h\<rparr>)]) \<and>
     (\<forall>cs d resolve. (d, Then resolve) \<in> set cs \<longrightarrow>
        Invoke resolve (ResultArg \<lparr>transactionHash = h\<rparr>) \<in> set (run_to_completion (mock_send op) cs)) \<and>
     (\<forall>cs cb a. Invoke cb a \<in> set (run_to_completion (mock_send op) cs) \<longrightarrow>
        (\<exists>d. (d, Then cb) \<in> set cs) \<or> (\<exists>d. (d, On ''transactionHash'' cb) \<in> set cs)) \<and>
     (\<forall>resolve loop. fst (mockEvent_then (mock_send op) resolve loop)
        = Fulfilled \<lparr>transactionHash = h\<rparr>) \<and>
     (\<forall>reject loop. fst (mockEvent_catch (mock_send op) reject loop)
        = Fulfilled \<lparr>transactionHash = h\<rparr>)"
proof -
  from mock_send_result [of op]
  obtain h where h: "h \<noteq> []" "mock_send op = MockEvent \<lparr>transactionHash = h\<rparr>"
    by blast
  have "mock_send op = createMockPromiEvent \<lparr>transactionHash = h\<rparr>"
    using h(2) by (simp add: createMockPromiEvent_def)
  moreover have "\<forall>op'. (mock_send op' = mock_send op) = (op' = op)"
    by (simp add: mock_send_inj)
  moreover have "\<forall>d resolve. run_to_completion (mock_send op) [(d, Then resolve)]
        = [Invoke resolve (ResultArg \<lparr>transactionHash = h\<rparr>)]"
    by (simp only: h(2) then_only) simp
  moreover have "\<forall>cs d resolve. (d, Then resolve) \<in> set cs \<longrightarrow>
        Invoke resolve (ResultArg \<lparr>transactionHash = h\<rparr>) \<in> set (run_to_completion (mock_send op) cs)"
    using run_to_completion_complete [where result = "\<lparr>transactionHash = h\<rparr>"]
    by (simp only: h(2)) blast
  moreover have "\<forall>cs cb a. Invoke cb a \<in> set (run_to_completion (mock_send op) cs) \<longrightarrow>
        (\<exists>d. (d, Then cb) \<in> set cs) \<or> (\<exists>d. (d, On ''transactionHash'' cb) \<in> set cs)"
    using run_to_completion_sound [where result = "\<lparr>transactionHash = h\<rparr>"]
    by (simp only: h(2)) blast
  moreover have "\<forall>resolve loop. fst (mockEvent_then (mock_send op) resolve loop)
        = Fulfilled \<lparr>transactionHash = h\<rparr>"
    by (simp add: h(2) Promise_resolve_def)
  moreover have "\<forall>reject loop. fst (mockEvent_catch (mock_send op) reject loop)
        = Fulfilled \<lparr>transactionHash = h\<rparr>"
    by (simp add: h(2) Promise_resolve_def)
  ultimately show ?thesis using h(1) by blast
qed

theorem mock_write_always_confirms_witness:
  "Invoke (Callback ''resolve'') (ResultArg \<lparr>transactionHash = ''0xmock789''\<rparr>)
     \<in> set (run_to_completion (mock_send buyPolicy)
         [(0, On ''error'' (Callback ''onError'')), (0, On ''transactionHash'' (Callback ''onHash'')),
          (5, Catch (Callback ''onReject'')), (10, Then (Callback ''resolve''))])
   \<and> Invoke (Callback ''onError'') (HashArg ''0xmock789'')
     \<notin> set (run_to_completion (mock_send buyPolicy)
         [(0, On ''error'' (Callback ''onError'')), (0, On ''transactionHash'' (Callback ''onHash'')),
          (5, Catch (Callback ''onReject'')), (10, Then (Callback ''resolve''))])"
proof -
  let ?cs = "[(0, On ''error'' (Callback ''onError'')), (0, On ''transactionHash'' (Callback ''onHash'')),
          (5, Catch (Callback ''onReject'')), (10, Then (Callback ''resolve''))]"
  from mock_write_always_confirms [of buyPolicy]
  obtain h where h: "mock_send buyPolicy = createMockPromiEvent \<lparr>transactionHash = h\<rparr>"
    and complete: "\<And>cs d resolve. (d, Then resolve) \<in> set cs \<Longrightarrow>
        Invoke resolve (ResultArg \<lparr>transactionHash = h\<rparr>) \<in> set (run_to_completion (mock_send buyPolicy) cs)"
    and sound: "\<And>cs cb a. Invoke cb a \<in> set (run_to_completion (mock_send buyPolicy) cs) \<Longrightarrow>
        (\<exists>d. (d, Then cb) \<in> set cs) \<or> (\<exists>d. (d, On ''transactionHash'' cb) \<in> set cs)"
    by blast
  from h have hv: "h = ''0xmock789''"
    by (simp add: createMockPromiEvent_def)
  have called: "(10, Then (Callback ''resolve'')) \<in> set ?cs"
    by simp
  have r1: "Invoke (Callback ''resolve'') (ResultArg \<lparr>transactionHash = ''0xmock789''\<rparr>)
      \<in> set (run_to_completion (mock_send buyPolicy) ?cs)"
    using complete [OF called] hv by simp
  have unregistered: "\<not> ((\<exists>d. (d, Then (Callback ''onError'')) \<in> set ?cs) \<or>
      (\<exists>d. (d, On ''transactionHash'' (Callback ''onError'')) \<in> set ?cs))"
    by simp
  have r2: "Invoke (Callback ''onError'') (HashArg ''0xmock789'')
      \<notin> set (run_to_completion (mock_send buyPolicy) ?cs)"
    using sound [of "Callback ''onError''" "HashArg ''0xmock789''" ?cs] unregistered by blast
  from r1 r2 show ?thesis by (intro conjI)
qed

lemma on_timer:
  "timers (perform (MockEvent \<lparr>transactionHash = h\<rparr>) (On ''transactionHash'' cb) loop)
     = timers loop @ [\<lparr>due = now loop + 100, thunk = Invoke cb (HashArg h)\<rparr>]"
  by (simp add: setTimeout_def)

lemma then_timer:
  "timers (perform (MockEvent \<lparr>transactionHash = h\<rparr>) (Then resolve) loop)
     = timers loop @ [\<lparr>due = now loop + 200, thunk = Invoke resolve (ResultArg \<lparr>transactionHash = h\<rparr>)\<rparr>]"
  by (simp add: setTimeout_def)

lemma on_delivery:
  "delivered (advance d (perform (MockEvent \<lparr>transactionHash = h\<rparr>) (On ''transactionHash'' cb)
       \<lparr>now = t, timers = [], delivered = []\<rparr>))
     = (if 100 \<le> d then [Invoke cb (HashArg h)] else [])"
  by (simp add: setTimeout_def advance_def)

lemma then_delivery:
  "delivered (advance d (perform (MockEvent \<lparr>transactionHash = h\<rparr>) (Then resolve)
       \<lparr>now = t, timers = [], delivered = []\<rparr>))
     = (if 200 \<le> d then [Invoke resolve (ResultArg \<lparr>transactionHash = h\<rparr>)] else [])"
  by (simp add: setTimeout_def advance_def)

text \<open>
  C8, as the code has it. Registering for \<open>transactionHash\<close> sets a timer of its own, due
  100 ms after the registration, and calling \<open>then\<close> sets another, due 200 ms after the
  call: the notification is delivered once 100 ms have passed since the registration and
  not before, the resolve callback is run with the confirmation once 200 ms have passed
  since the call of \<open>then\<close> and not before. When the subscriber registers before \<open>then\<close>
  is called (as in \<open>send().on('transactionHash', f).then(g)\<close>), or less than 100 ms after
  it, the notification is delivered before the resolution; when it registers 100 ms or
  more after the call of \<open>then\<close>, the resolution is delivered first.
\<close>

theorem notification_before_resolution:
  "\<exists>h. mock_send op = createMockPromiEvent \<lparr>transactionHash = h\<rparr> \<and>
     (\<forall>d1 d2. run_to_completion (mock_send op) [(d1, On ''transactionHash'' cb), (d2, Then resolve)]
        = [Invoke cb (HashArg h), Invoke resolve (ResultArg \<lparr>transactionHash = h\<rparr>)]) \<and>
     (\<forall>d1 d2. run_to_completion (mock_send op) [(d1, Then resolve), (d2, On ''transactionHash'' cb)]
        = (if d2 < 100
           then [Invoke cb (HashArg h), Invoke resolve (ResultArg \<lparr>transactionHash = h\<rparr>)]
           else [Invoke resolve (ResultArg \<lparr>transactionHash = h\<rparr>), Invoke cb (HashArg h)])) \<and>
     (\<forall>d1 d2. happens_before (Invoke cb (HashArg h)) (Invoke resolve (ResultArg \<lparr>transactionHash = h\<rparr>))
        (run_to_completion (mock_send op) [(d1, On ''transactionHash'' cb), (d2, Then resolve)])) \<and>
     (\<forall>d1 d2. happens_before (Invoke cb (HashArg h)) (Invoke resolve (ResultArg \<lparr>transactionHash = h\<rparr>))
        (run_to_completion (mock_send op) [(d1, Then resolve), (d2, On ''transactionHash'' cb)])
        = (d2 < 100)) \<and>
     (\<forall>loop. timers (perform (mock_send op) (On ''transactionHash'' cb) loop)
        = timers loop @ [\<lparr>due = now loop + 100, thunk = Invoke cb (HashArg h)\<rparr>]) \<and>
     (\<forall>loop. timers (perform (mock_send op) (Then resolve) loop)
        = timers loop @
          [\<lparr>due = now loop + 200, thunk = Invoke resolve (ResultArg \<lparr>transactionHash = h\<rparr>)\<rparr>]) \<and>
     (\<forall>t d. delivered (advance d (perform (mock_send op) (On ''transactionHash'' cb)
          \<lparr>now = t, timers = [], delivered = []\<rparr>))
        = (if 100 \<le> d then [Invoke cb (HashArg h)] else [])) \<and>
     (\<forall>t d. delivered (advance d (perform (mock_send op) (Then resolve)
          \<lparr>now = t, timers = [], delivered = []\<rparr>))
        = (if 200 \<le> d then [Invoke resolve (ResultArg \<lparr>transactionHash = h\<rparr>)] else []))"
proof -
  from mock_send_result [of op]
  obtain h where h: "mock_send op = MockEvent \<lparr>transactionHash = h\<rparr>"
    by blast
  have "mock_send op = createMockPromiEvent \<lparr>transactionHash = h\<rparr>"
    using h by (simp add: createMockPromiEvent_def)
  moreover have "\<forall>d1 d2. run_to_completion (mock_send op)
        [(d1, On ''transactionHash'' cb), (d2, Then resolve)]
        = [Invoke cb (HashArg h), Invoke resolve (ResultArg \<lparr>transactionHash = h\<rparr>)]"
    by (simp only: h on_first) simp
  moreover have "\<forall>d1 d2. run_to_completion (mock_send op)
        [(d1, Then resolve), (d2, On ''transactionHash'' cb)]
        = (if d2 < 100
           then [Invoke cb (HashArg h), Invoke resolve (ResultArg \<lparr>transactionHash = h\<rparr>)]
           else [Invoke resolve (ResultArg \<lparr>transactionHash = h\<rparr>), Invoke cb (HashArg h)])"
    by (simp only: h then_first) simp
  moreover have "\<forall>d1 d2. happens_before (Invoke cb (HashArg h))
        (Invoke resolve (ResultArg \<lparr>transactionHash = h\<rparr>))
        (run_to_completion (mock_send op) [(d1, On ''transactionHash'' cb), (d2, Then resolve)])"
    by (simp only: h on_first) (simp add: happens_before_def)
  moreover have "\<forall>d1 d2. happens_before (Invoke cb (HashArg h))
        (Invoke resolve (ResultArg \<lparr>transactionHash = h\<rparr>))
        (run_to_completion (mock_send op) [(d1, Then resolve), (d2, On ''transactionHash'' cb)])
        = (d2 < 100)"
    by (simp only: h then_first) (simp add: happens_before_def)
  moreover have "\<forall>loop. timers (perform (mock_send op) (On ''transactionHash'' cb) loop)
        = timers loop @ [\<lparr>due = now loop + 100, thunk = Invoke cb (HashArg h)\<rparr>]"
    by (simp only: h on_timer) simp
  moreover have "\<forall>loop. timers (perform (mock_send op) (Then resolve) loop)
        = timers loop @
          [\<lparr>due = now loop + 200, thunk = Invoke resolve (ResultArg \<lparr>transactionHash = h\<rparr>)\<rparr>]"
    by (simp only: h then_timer) simp
  moreover have "\<forall>t d. delivered (advance d (perform (mock_send op) (On ''transactionHash'' cb)
          \<lparr>now = t, timers = [], delivered = []\<rparr>))
        = (if 100 \<le> d then [Invoke cb (HashArg h)] else [])"
    by (simp only: h on_delivery) simp
  moreover have "\<forall>t d. delivered (advance d (perform (mock_send op) (Then resolve)
          \<lparr>now = t, timers = [], delivered = []\<rparr>))
        = (if 200 \<le> d then [Invoke resolve (ResultArg \<lparr>transactionHash = h\<rparr>)] else [])"
    by (simp only: h then_delivery) simp
  ultimately show ?thesis by blast
qed

text \<open>
  C8 as stated fails: a subscriber that calls \<open>then\<close> and registers for
  \<open>transactionHash\<close> 150 ms later is notified after the resolution.
\<close>

theorem late_subscription_counterexample:
  "run_to_completion (mock_send register)
     [(0, Then (Callback ''resolve'')), (150, On ''transactionHash'' (Callback ''onHash''))]
   = [Invoke (Callback ''resolve'') (ResultArg \<lparr>transactionHash = ''0xmock123''\<rparr>),
      Invoke (Callback ''onHash'') (HashArg ''0xmock123'')]
   \<and> \<not> happens_before (Invoke (Callback ''onHash'') (HashArg ''0xmock123''))
       (Invoke (Callback ''resolve'') (ResultArg \<lparr>transactionHash = ''0xmock123''\<rparr>))
       (run_to_completion (mock_send register)
          [(0, Then (Callback ''resolve'')), (150, On ''transactionHash'' (Callback ''onHash''))])"
  by (simp add: then_first createMockPromiEvent_def happens_before_def)

end
